theory Spec2Isabelle
  imports Complex_Main
begin

section \<open>Numbers: IEEE 754 binary64 values\<close>

text \<open>
  A JavaScript number is a binary64 value.  A finite one is denoted by the rational it
  stands for; the two zeros are both \<open>Fin 0\<close> (the transformation never divides, and
  comparison, printing and rounding treat them alike).
\<close>

datatype number = NaN | PosInf | NegInf | Fin rat

text \<open>The number of binary digits of a positive integer.\<close>

function bitlen :: "int \<Rightarrow> int" where
  "bitlen n = (if n \<le> 0 then 0 else 1 + bitlen (n div 2))"
  by pat_completeness auto
termination
  by (relation "measure nat") auto

declare bitlen.simps [simp del]

definition pow2 :: "int \<Rightarrow> rat" where
  "pow2 e = (if 0 \<le> e then 2 ^ nat e else 1 / 2 ^ nat (- e))"

definition pow10 :: "int \<Rightarrow> rat" where
  "pow10 e = (if 0 \<le> e then 10 ^ nat e else 1 / 10 ^ nat (- e))"

text \<open>\<open>ilog2 a\<close> is the exponent \<open>e\<close> with \<open>2 ^ e \<le> a < 2 ^ (e + 1)\<close>, for \<open>0 < a\<close>.\<close>

definition ilog2 :: "rat \<Rightarrow> int" where
  "ilog2 a =
     (if 1 \<le> a then bitlen \<lfloor>a\<rfloor> - 1
      else let b = bitlen \<lfloor>1 / a\<rfloor> - 1
           in if a * pow2 b = 1 then - b else - (b + 1))"

definition round_half_even :: "rat \<Rightarrow> int" where
  "round_half_even x =
     (let f = \<lfloor>x\<rfloor>; d = x - of_int f
      in if d < 1 / 2 then f else if 1 / 2 < d then f + 1
         else if even f then f else f + 1)"

text \<open>
  Rounding of an exact result to binary64, to nearest with ties to even: 53 significant
  bits, subnormals below \<open>2 ^ (-1022)\<close>, and an infinity when the rounded magnitude
  reaches \<open>2 ^ 1024\<close>.
\<close>

definition double_of_rat :: "rat \<Rightarrow> number" where
  "double_of_rat r =
     (if r = 0 then Fin 0
      else let a = \<bar>r\<bar>;
               e = max (ilog2 a) (- 1022);
               q = pow2 (e - 52);
               v = of_int (round_half_even (a / q)) * q
           in if 0 < v \<and> 1024 \<le> ilog2 v then (if r < 0 then NegInf else PosInf)
              else Fin (if r < 0 then - v else v))"

definition isFinite :: "number \<Rightarrow> bool" where
  "isFinite x = (case x of Fin _ \<Rightarrow> True | _ \<Rightarrow> False)"

text \<open>The comparison \<open>x <= 0\<close>: false when \<open>x\<close> is NaN.\<close>

definition le_zero :: "number \<Rightarrow> bool" where
  "le_zero x = (case x of Fin r \<Rightarrow> r \<le> 0 | NegInf \<Rightarrow> True | _ \<Rightarrow> False)"

text \<open>The comparison \<open>x > 0\<close>: false when \<open>x\<close> is NaN.\<close>

definition gt_zero :: "number \<Rightarrow> bool" where
  "gt_zero x = (case x of Fin r \<Rightarrow> 0 < r | PosInf \<Rightarrow> True | _ \<Rightarrow> False)"

definition is_neg :: "number \<Rightarrow> bool" where
  "is_neg x = (case x of Fin r \<Rightarrow> r < 0 | NegInf \<Rightarrow> True | _ \<Rightarrow> False)"

text \<open>The product \<open>x * y\<close> of two numbers.\<close>

fun mul :: "number \<Rightarrow> number \<Rightarrow> number" where
  "mul NaN y = NaN"
| "mul x NaN = NaN"
| "mul (Fin a) (Fin b) = double_of_rat (a * b)"
| "mul x y =
     (if x = Fin 0 \<or> y = Fin 0 then NaN
      else if is_neg x = is_neg y then PosInf else NegInf)"

text \<open>The sum \<open>x + y\<close> of two numbers.\<close>

fun add :: "number \<Rightarrow> number \<Rightarrow> number" where
  "add NaN y = NaN"
| "add x NaN = NaN"
| "add (Fin a) (Fin b) = double_of_rat (a + b)"
| "add PosInf NegInf = NaN"
| "add NegInf PosInf = NaN"
| "add (Fin a) y = y"
| "add x y = x"

declare mul.simps [simp del] add.simps [simp del]

section \<open>Strings\<close>

text \<open>
  A string is a sequence of UTF-16 code units; the model covers the code units below
  256, one \<open>char\<close> each.  Among these the white space and line terminator characters
  (what \<open>trim\<close>, the pattern \<open>\s\<close> and \<open>parseFloat\<close> skip) are 9 to 13, 32 and 160.
\<close>

definition isWhiteSpace :: "char \<Rightarrow> bool" where
  "isWhiteSpace c =
     (let n = (of_char c :: int) in (9 \<le> n \<and> n \<le> 13) \<or> n = 32 \<or> n = 160)"

definition isDigit :: "char \<Rightarrow> bool" where
  "isDigit c = (let n = (of_char c :: int) in 48 \<le> n \<and> n \<le> 57)"

definition trim :: "string \<Rightarrow> string" where
  "trim s = rev (dropWhile isWhiteSpace (rev (dropWhile isWhiteSpace s)))"

text \<open>\<open>toLowerCase\<close>, on code units below 256: A to Z, and U+00C0 to U+00DE but U+00D7.\<close>

definition lowerChar :: "char \<Rightarrow> char" where
  "lowerChar c =
     (let n = (of_char c :: int)
      in if (65 \<le> n \<and> n \<le> 90) \<or> (192 \<le> n \<and> n \<le> 214) \<or> (216 \<le> n \<and> n \<le> 222)
         then char_of (n + 32) else c)"

definition toLowerCase :: "string \<Rightarrow> string" where
  "toLowerCase s = map lowerChar s"

definition digitChar :: "int \<Rightarrow> char" where
  "digitChar d = char_of (48 + d)"

text \<open>The decimal digits of a non-negative integer.\<close>

function digits :: "int \<Rightarrow> string" where
  "digits n = (if n < 10 then [digitChar n] else digits (n div 10) @ [digitChar (n mod 10)])"
  by pat_completeness auto
termination
  by (relation "measure nat") auto

declare digits.simps [simp del]

definition digitsValue :: "string \<Rightarrow> int" where
  "digitsValue ds = foldl (\<lambda>a c. 10 * a + (of_char c - 48)) 0 ds"

subsection \<open>\<open>Number.parseFloat\<close>\<close>

text \<open>The value of an exponent part at the head of the string, 0 when there is none.\<close>

definition exponentPart :: "string \<Rightarrow> int" where
  "exponentPart s =
     (case s of
        [] \<Rightarrow> 0
      | c # r \<Rightarrow>
          if c = CHR ''e'' \<or> c = CHR ''E'' then
            (let neg = (case r of d # _ \<Rightarrow> d = CHR ''-'' | [] \<Rightarrow> False);
                 r' = (case r of d # t \<Rightarrow> if d = CHR ''+'' \<or> d = CHR ''-'' then t else r
                       | [] \<Rightarrow> r);
                 ds = takeWhile isDigit r'
             in if ds = [] then 0 else if neg then - digitsValue ds else digitsValue ds)
          else 0)"

text \<open>
  \<open>parseFloat\<close> skips leading white space and reads the longest prefix that is a
  decimal literal: a sign, then \<open>Infinity\<close> or digits with an optional fraction and
  exponent.  With no such prefix the result is NaN; otherwise it is the binary64 value
  nearest to the literal.
\<close>

definition parseFloat :: "string \<Rightarrow> number" where
  "parseFloat input =
     (let s0 = dropWhile isWhiteSpace input;
          neg = (case s0 of c # _ \<Rightarrow> c = CHR ''-'' | [] \<Rightarrow> False);
          s1 = (case s0 of c # r \<Rightarrow> if c = CHR ''+'' \<or> c = CHR ''-'' then r else s0
                | [] \<Rightarrow> s0)
      in if take 8 s1 = ''Infinity'' then (if neg then NegInf else PosInf)
         else
           let ip = takeWhile isDigit s1;
               r1 = dropWhile isDigit s1;
               hasDot = (case r1 of c # _ \<Rightarrow> c = CHR ''.'' | [] \<Rightarrow> False);
               fp = (if hasDot then takeWhile isDigit (tl r1) else []);
               r2 = (if hasDot then dropWhile isDigit (tl r1) else r1)
           in if ip = [] \<and> fp = [] then NaN
              else
                let m = of_int (digitsValue (ip @ fp))
                          * pow10 (exponentPart r2 - int (length fp))
                in double_of_rat (if neg then - m else m))"

subsection \<open>\<open>Number::toString\<close>\<close>

text \<open>\<open>ilog10 a\<close> is the exponent \<open>e\<close> with \<open>10 ^ e \<le> a < 10 ^ (e + 1)\<close>, for \<open>0 < a\<close>.\<close>

definition ilog10 :: "rat \<Rightarrow> int" where
  "ilog10 a =
     (if 1 \<le> a then int (length (digits \<lfloor>a\<rfloor>)) - 1
      else let b = int (length (digits \<lfloor>1 / a\<rfloor>)) - 1
           in if a * pow10 b = 1 then - b else - (b + 1))"

text \<open>
  The candidates \<open>(n, s)\<close> with \<open>k\<close> digits for a positive \<open>x\<close>: \<open>s\<close> has \<open>k\<close>
  decimal digits and \<open>s * 10 ^ (n - k)\<close> rounds to \<open>x\<close>.
\<close>

definition candidates :: "rat \<Rightarrow> int \<Rightarrow> (int \<times> int) list" where
  "candidates x k =
     (let n0 = ilog10 x + 1
      in concat (map (\<lambda>n.
           let f = \<lfloor>x / pow10 (n - k)\<rfloor>
           in filter (\<lambda>(n, s). pow10 (k - 1) \<le> of_int s \<and> of_int s < pow10 k
                        \<and> double_of_rat (of_int s * pow10 (n - k)) = Fin x)
                [(n, f), (n, f + 1)]) [n0, n0 + 1]))"

text \<open>Of the candidates the one closest to \<open>x\<close>, the even \<open>s\<close> on a tie.\<close>

fun closest :: "rat \<Rightarrow> int \<Rightarrow> (int \<times> int) list \<Rightarrow> (int \<times> int) option" where
  "closest x k [] = None"
| "closest x k ((n, s) # cs) =
     (case closest x k cs of
        None \<Rightarrow> Some (n, s)
      | Some (n', s') \<Rightarrow>
          let d = \<bar>of_int s * pow10 (n - k) - x\<bar>;
              d' = \<bar>of_int s' * pow10 (n' - k) - x\<bar>
          in if d < d' \<or> (d = d' \<and> even s) then Some (n, s) else Some (n', s'))"

text \<open>The least \<open>k\<close> from the given ones that has a candidate, with the chosen one.\<close>

fun shortest :: "rat \<Rightarrow> int list \<Rightarrow> (int \<times> int \<times> int) option" where
  "shortest x [] = None"
| "shortest x (k # ks) =
     (case closest x k (candidates x k) of
        Some (n, s) \<Rightarrow> Some (k, n, s)
      | None \<Rightarrow> shortest x ks)"

definition formatDigits :: "int \<Rightarrow> int \<Rightarrow> int \<Rightarrow> string" where
  "formatDigits k n s =
     (let ds = digits s
      in if k \<le> n \<and> n \<le> 21 then ds @ replicate (nat (n - k)) CHR ''0''
         else if 0 < n \<and> n \<le> 21 then take (nat n) ds @ ''.'' @ drop (nat n) ds
         else if - 6 < n \<and> n \<le> 0 then ''0.'' @ replicate (nat (- n)) CHR ''0'' @ ds
         else
           let e = n - 1;
               ex = (if e < 0 then ''-'' else ''+'') @ digits \<bar>e\<bar>
           in if k = 1 then ds @ ''e'' @ ex
              else take 1 ds @ ''.'' @ drop 1 ds @ ''e'' @ ex)"

text \<open>
  The decimal text of a number, as string conversion and template literals give it: the
  shortest digit string that reads back as the same binary64 value (17 digits always
  suffice for one; a rational that is no binary64 value has no such text, and the last
  case is of no interest).
\<close>

definition numberToString :: "number \<Rightarrow> string" where
  "numberToString x =
     (case x of
        NaN \<Rightarrow> ''NaN''
      | PosInf \<Rightarrow> ''Infinity''
      | NegInf \<Rightarrow> ''-Infinity''
      | Fin r \<Rightarrow>
          if r = 0 then ''0''
          else
            (case shortest \<bar>r\<bar> [1, 2, 3, 4, 5, 6, 7, 8, 9, 10, 11, 12, 13, 14, 15, 16, 17] of
               Some (k, n, s) \<Rightarrow> (if r < 0 then ''-'' else []) @ formatDigits k n s
             | None \<Rightarrow> ''NaN''))"

subsection \<open>\<open>Number.prototype.toFixed\<close> with two fraction digits\<close>

definition toFixed2 :: "number \<Rightarrow> string" where
  "toFixed2 x =
     (case x of
        Fin r \<Rightarrow>
          let sg = (if r < 0 then ''-'' else []);
              a = \<bar>r\<bar>
          in if pow10 21 \<le> a then sg @ numberToString (Fin a)
             else
               let n = \<lfloor>a * 100 + 1 / 2\<rfloor>;
                   m = digits n;
                   m' = (if length m \<le> 2 then replicate (3 - length m) CHR ''0'' @ m else m)
               in sg @ take (length m' - 2) m' @ ''.'' @ drop (length m' - 2) m'
      | _ \<Rightarrow> numberToString x)"

section \<open>Data model\<close>

text \<open>
  A cell value of a raw row: absent (\<open>undefined\<close>), \<open>null\<close>, a number, a string, or any
  other value (a boolean, a date, an object), kept as the text its string conversion gives.
\<close>

datatype cell = Undefined | Null | Num number | Str string | Other string

text \<open>
  A raw row is an object from header to cell value: its entries in the order in which
  \<open>Object.keys\<close> enumerates them.  A key that is not there reads as \<open>undefined\<close>.
\<close>

type_synonym RawRow = "(string \<times> cell) list"

definition getCell :: "RawRow \<Rightarrow> string \<Rightarrow> cell" where
  "getCell row k = (case map_of row k of None \<Rightarrow> Undefined | Some v \<Rightarrow> v)"

text \<open>The operator \<open>a ?? b\<close>.\<close>

definition nullish :: "cell \<Rightarrow> cell \<Rightarrow> cell" where
  "nullish a b = (if a = Undefined \<or> a = Null then b else a)"

text \<open>The string conversion of a template literal.\<close>

definition toString :: "cell \<Rightarrow> string" where
  "toString v =
     (case v of
        Undefined \<Rightarrow> ''undefined''
      | Null \<Rightarrow> ''null''
      | Num n \<Rightarrow> numberToString n
      | Str s \<Rightarrow> s
      | Other s \<Rightarrow> s)"

record QuotationRow =
  modelNo :: string
  categoryName :: string
  color :: string
  qty :: number
  priceUSD :: number
  amountUSD :: number

record TransformOptions =
  defaultPrice :: "number option"

record Totals =
  totalQty :: number
  totalAmount :: number

record TransformResult =
  rows :: "QuotationRow list"
  totals :: Totals
  warnings :: "string list"

datatype TransformErrorCode = INVALID_TEMPLATE | PARSE_ERROR | EMPTY_RESULT

datatype TransformError = TransformError (message: string) (code: TransformErrorCode)

definition DEFAULT_PRICE :: number where
  "DEFAULT_PRICE = double_of_rat (8 / 10)"

definition FIXED_COLUMNS :: "string list" where
  "FIXED_COLUMNS = [''model'', ''qty'', ''price'', ''amount,usd'', ''amount'', ''amountusd'']"

section \<open>The transformation\<close>

definition normalizeHeader :: "string \<Rightarrow> string" where
  "normalizeHeader header = toLowerCase (filter (\<lambda>c. \<not> isWhiteSpace c) header)"

definition parseNumber :: "cell \<Rightarrow> number option" where
  "parseNumber v =
     (case v of
        Null \<Rightarrow> None
      | Undefined \<Rightarrow> None
      | Num n \<Rightarrow> if isFinite n then Some n else None
      | Str s \<Rightarrow>
          let trimmed = trim s
          in if trimmed = [] then None
             else
               let normalized = filter (\<lambda>c. c \<noteq> CHR '','') trimmed;
                   parsed = parseFloat normalized
               in if isFinite parsed then Some parsed else None
      | Other _ \<Rightarrow> None)"

definition priceFallbackWarning :: string where
  "priceFallbackWarning = ''Price column missing or invalid; fallback to default price.''"

text \<open>\<open>getPrice\<close> returns the price and the warnings, which it may have extended.\<close>

definition getPrice :: "RawRow \<Rightarrow> number \<Rightarrow> string list \<Rightarrow> number \<times> string list" where
  "getPrice row dflt ws =
     (case parseNumber (nullish (getCell row ''Price'') (getCell row ''price'')) of
        None \<Rightarrow> (dflt, ws @ [priceFallbackWarning])
      | Some price \<Rightarrow>
          if le_zero price then (dflt, ws @ [priceFallbackWarning]) else (price, ws))"

text \<open>A set of headers in insertion order: adding a member again changes nothing.\<close>

definition addHeader :: "string list \<Rightarrow> string \<Rightarrow> string list" where
  "addHeader headers k = (if k \<in> set headers then headers else headers @ [k])"

definition extractHeaders :: "RawRow list \<Rightarrow> string list" where
  "extractHeaders rws =
     foldl (\<lambda>headers row.
              foldl (\<lambda>headers k. if k \<noteq> [] then addHeader headers k else headers)
                headers (map fst row))
       [] rws"

definition identifyColorColumns :: "string list \<Rightarrow> string list" where
  "identifyColorColumns headers =
     filter (\<lambda>header.
               if header = [] then False
               else normalizeHeader header \<notin> set FIXED_COLUMNS) headers"

definition ensureModelColumn :: "string list \<Rightarrow> TransformError + unit" where
  "ensureModelColumn headers =
     (if list_ex (\<lambda>header. normalizeHeader header = ''model'') headers then Inr ()
      else Inl (TransformError
                  (''Missing required column '' @ [CHR 0x22] @ ''Model'' @ [CHR 0x22] @ ''.'')
                  INVALID_TEMPLATE))"

text \<open>The variables that the two loops of \<open>transformMatrixRows\<close> update.\<close>

record vars =
  resultRows :: "QuotationRow list"
  v_warnings :: "string list"
  v_totalQty :: number
  v_totalAmount :: number

text \<open>
  The row number of a warning: \<open>index + 2\<close> in decimal (an array index is an integer
  below \<open>2 ^ 32\<close>).
\<close>

definition rowLabel :: "nat \<Rightarrow> string" where
  "rowLabel index = ''Row '' @ digits (int index + 2)"

definition invalidQuantityWarning :: "nat \<Rightarrow> string \<Rightarrow> string" where
  "invalidQuantityWarning index colorColumn =
     rowLabel index @ '', column '' @ [CHR 0x22] @ colorColumn @ [CHR 0x22]
       @ '': Invalid quantity, ignored.''"

definition missingModelWarning :: "nat \<Rightarrow> string" where
  "missingModelWarning index = rowLabel index @ '': Missing model name, skipping.''"

text \<open>The body of the inner loop, for one variant column of one raw row.\<close>

definition colorStep :: "RawRow \<Rightarrow> nat \<Rightarrow> string \<Rightarrow> number \<Rightarrow> vars \<Rightarrow> string \<Rightarrow> vars" where
  "colorStep row index model price st colorColumn =
     (case parseNumber (getCell row colorColumn) of
        None \<Rightarrow>
          st\<lparr>v_warnings := v_warnings st @ [invalidQuantityWarning index colorColumn]\<rparr>
      | Some q \<Rightarrow>
          if le_zero q then st
          else
            let amount = parseFloat (toFixed2 (mul q price))
            in st\<lparr>resultRows := resultRows st @
                     [\<lparr>modelNo = model, categoryName = model, color = trim colorColumn,
                       qty = q, priceUSD = price, amountUSD = amount\<rparr>],
                  v_totalQty := add (v_totalQty st) q,
                  v_totalAmount := add (v_totalAmount st) amount\<rparr>)"

text \<open>The model name of a raw row: the \<open>Model\<close> or \<open>model\<close> field as a trimmed string.\<close>

definition modelOf :: "RawRow \<Rightarrow> string" where
  "modelOf row =
     (let modelValue = nullish (nullish (getCell row ''Model'') (getCell row ''model'')) (Str [])
      in case modelValue of
           Str s \<Rightarrow> trim s
         | _ \<Rightarrow> trim (toString (nullish modelValue (Str []))))"

text \<open>The body of the outer loop, for one raw row and its index.\<close>

definition rowStep :: "string list \<Rightarrow> number \<Rightarrow> vars \<Rightarrow> nat \<times> RawRow \<Rightarrow> vars" where
  "rowStep colorColumns dflt st ir =
     (let index = fst ir; row = snd ir; model = modelOf row
      in if model = [] then st\<lparr>v_warnings := v_warnings st @ [missingModelWarning index]\<rparr>
         else
           let pw = getPrice row dflt (v_warnings st)
           in foldl (colorStep row index model (fst pw)) (st\<lparr>v_warnings := snd pw\<rparr>)
                colorColumns)"

definition initialVars :: vars where
  "initialVars = \<lparr>resultRows = [], v_warnings = [], v_totalQty = Fin 0, v_totalAmount = Fin 0\<rparr>"

definition processRows :: "string list \<Rightarrow> number \<Rightarrow> RawRow list \<Rightarrow> vars" where
  "processRows colorColumns dflt rws =
     foldl (rowStep colorColumns dflt) initialVars (enumerate 0 rws)"

text \<open>The default price in force: \<open>options?.defaultPrice ?? DEFAULT_PRICE\<close>.\<close>

definition defaultPriceOf :: "TransformOptions option \<Rightarrow> number" where
  "defaultPriceOf options =
     (case options of
        None \<Rightarrow> DEFAULT_PRICE
      | Some opts \<Rightarrow> (case defaultPrice opts of None \<Rightarrow> DEFAULT_PRICE | Some p \<Rightarrow> p))"

definition transformMatrixRows ::
  "RawRow list \<Rightarrow> TransformOptions option \<Rightarrow> TransformError + TransformResult" where
  "transformMatrixRows rws options =
     (let dflt = defaultPriceOf options;
          headers = extractHeaders rws
      in if length headers = 0
         then Inl (TransformError ''Could not detect headers in worksheet.'' PARSE_ERROR)
         else
           (case ensureModelColumn headers of
              Inl e \<Rightarrow> Inl e
            | Inr _ \<Rightarrow>
                let colorColumns = identifyColorColumns headers
                in if length colorColumns = 0
                   then Inl (TransformError ''No color columns detected in worksheet.''
                               INVALID_TEMPLATE)
                   else
                     let st = processRows colorColumns dflt rws
                     in if length (resultRows st) = 0
                        then Inl (TransformError ''No valid rows produced from worksheet.''
                                    EMPTY_RESULT)
                        else Inr \<lparr>rows = resultRows st,
                                  totals = \<lparr>totalQty = v_totalQty st,
                                            totalAmount = parseFloat (toFixed2 (v_totalAmount st))\<rparr>,
                                  warnings = v_warnings st\<rparr>))"

section \<open>Specification\<close>

text \<open>The sum of a sequence of numbers: from 0, adding from left to right.\<close>

definition sumNumbers :: "number list \<Rightarrow> number" where
  "sumNumbers xs = foldl add (Fin 0) xs"

text \<open>The members of a sequence in the order in which each is first seen.\<close>

fun firstSeen :: "'a list \<Rightarrow> 'a list" where
  "firstSeen [] = []"
| "firstSeen (x # xs) = x # filter (\<lambda>y. y \<noteq> x) (firstSeen xs)"

text \<open>The quotation rows of one variant cell: one row for a quantity above 0, else none.\<close>

definition cellRows :: "RawRow \<Rightarrow> string \<Rightarrow> number \<Rightarrow> string \<Rightarrow> QuotationRow list" where
  "cellRows row model price colorColumn =
     (case parseNumber (getCell row colorColumn) of
        None \<Rightarrow> []
      | Some q \<Rightarrow>
          if le_zero q then []
          else [\<lparr>modelNo = model, categoryName = model, color = trim colorColumn,
                  qty = q, priceUSD = price,
                  amountUSD = parseFloat (toFixed2 (mul q price))\<rparr>])"

text \<open>The warnings of one variant cell: one for a quantity that does not parse.\<close>

definition cellWarnings :: "RawRow \<Rightarrow> nat \<Rightarrow> string \<Rightarrow> string list" where
  "cellWarnings row index colorColumn =
     (case parseNumber (getCell row colorColumn) of
        None \<Rightarrow> [invalidQuantityWarning index colorColumn]
      | Some q \<Rightarrow> [])"

text \<open>The quotation rows of one raw row: those of its variant cells, column by column.\<close>

definition rowRows :: "string list \<Rightarrow> number \<Rightarrow> RawRow \<Rightarrow> QuotationRow list" where
  "rowRows colorColumns dflt row =
     (if modelOf row = [] then []
      else concat (map (cellRows row (modelOf row) (fst (getPrice row dflt []))) colorColumns))"

text \<open>The warnings of one raw row: for its model, or for its price and then its cells.\<close>

definition rowWarnings :: "string list \<Rightarrow> number \<Rightarrow> nat \<times> RawRow \<Rightarrow> string list" where
  "rowWarnings colorColumns dflt ir =
     (if modelOf (snd ir) = [] then [missingModelWarning (fst ir)]
      else snd (getPrice (snd ir) dflt [])
             @ concat (map (cellWarnings (snd ir) (fst ir)) colorColumns))"

text \<open>
  The invariant of the two loops: the running totals are the sums over the rows emitted
  so far.
\<close>

definition totalsInv :: "vars \<Rightarrow> bool" where
  "totalsInv st \<longleftrightarrow>
     v_totalQty st = sumNumbers (map qty (resultRows st)) \<and>
     v_totalAmount st = sumNumbers (map amountUSD (resultRows st))"

section \<open>Scenarios\<close>

text \<open>Scenario A: two raw rows, three variant columns, both prices given.\<close>

definition scenarioA :: "RawRow list" where
  "scenarioA =
     [[(''Model'', Str ''IP 12/12 pro''), (''18#Black'', Num (Fin 50)),
       (''5#Lilac Blue'', Str ''20''), (''Qty'', Num (Fin 230)),
       (''Price'', Num (double_of_rat (8 / 10))), (''Amount, usd'', Num (Fin 184))],
      [(''Model'', Str ''IP 12 promax''), (''18#Black'', Num (Fin 0)), (''Red'', Num (Fin 30)),
       (''Qty'', Num (Fin 150)), (''Price'', Str ''1.2''), (''Amount, usd'', Num (Fin 120)),
       (''Amount'', Num (Fin 480))]]"

definition resultA :: TransformResult where
  "resultA =
     \<lparr>rows =
        [\<lparr>modelNo = ''IP 12/12 pro'', categoryName = ''IP 12/12 pro'', color = ''18#Black'',
          qty = Fin 50, priceUSD = double_of_rat (8 / 10), amountUSD = Fin 40\<rparr>,
         \<lparr>modelNo = ''IP 12/12 pro'', categoryName = ''IP 12/12 pro'', color = ''5#Lilac Blue'',
          qty = Fin 20, priceUSD = double_of_rat (8 / 10), amountUSD = Fin 16\<rparr>,
         \<lparr>modelNo = ''IP 12 promax'', categoryName = ''IP 12 promax'', color = ''Red'',
          qty = Fin 30, priceUSD = double_of_rat (12 / 10), amountUSD = Fin 36\<rparr>],
      totals = \<lparr>totalQty = Fin 100, totalAmount = Fin 92\<rparr>,
      warnings =
        [''Row 2, column '' @ [CHR 0x22] @ ''Red'' @ [CHR 0x22] @ '': Invalid quantity, ignored.'',
         ''Row 3, column '' @ [CHR 0x22] @ ''5#Lilac Blue'' @ [CHR 0x22]
           @ '': Invalid quantity, ignored.'']\<rparr>"

text \<open>Scenario B: one raw row without a price, and the default price 0.9.\<close>

definition scenarioB :: "RawRow list" where
  "scenarioB = [[(''Model'', Str ''Model X''), (''Black'', Num (Fin 10))]]"

definition optionsB :: "TransformOptions option" where
  "optionsB = Some \<lparr>defaultPrice = Some (double_of_rat (9 / 10))\<rparr>"

definition resultB :: TransformResult where
  "resultB =
     \<lparr>rows = [\<lparr>modelNo = ''Model X'', categoryName = ''Model X'', color = ''Black'',
               qty = Fin 10, priceUSD = double_of_rat (9 / 10), amountUSD = Fin 9\<rparr>],
      totals = \<lparr>totalQty = Fin 10, totalAmount = Fin 9\<rparr>,
      warnings = [''Price column missing or invalid; fallback to default price.'']\<rparr>"

text \<open>Scenario B with the default price 0.\<close>

definition optionsZero :: "TransformOptions option" where
  "optionsZero = Some \<lparr>defaultPrice = Some (Fin 0)\<rparr>"

definition resultZero :: TransformResult where
  "resultZero =
     \<lparr>rows = [\<lparr>modelNo = ''Model X'', categoryName = ''Model X'', color = ''Black'',
               qty = Fin 10, priceUSD = Fin 0, amountUSD = Fin 0\<rparr>],
      totals = \<lparr>totalQty = Fin 10, totalAmount = Fin 0\<rparr>,
      warnings = [''Price column missing or invalid; fallback to default price.'']\<rparr>"

text \<open>
  A raw row without a model whose variant cell does not parse, followed by a good row.
\<close>

definition scenarioSkip :: "RawRow list" where
  "scenarioSkip =
     [[(''Model'', Str []), (''A'', Str ''x'')],
      [(''Model'', Str ''M''), (''A'', Num (Fin 1))]]"

section \<open>Properties of the loops and evaluation at the scenarios\<close>

lemma colorStep_resultRows:
  "resultRows (colorStep row i m p st c) = resultRows st @ cellRows row m p c"
  by (simp add: colorStep_def cellRows_def Let_def split: option.splits)

lemma colorStep_warnings:
  "v_warnings (colorStep row i m p st c) = v_warnings st @ cellWarnings row i c"
  by (simp add: colorStep_def cellWarnings_def Let_def split: option.splits)

lemma foldl_colorStep_resultRows:
  "resultRows (foldl (colorStep row i m p) st cs)
     = resultRows st @ concat (map (cellRows row m p) cs)"
  by (induction cs arbitrary: st) (simp_all add: colorStep_resultRows)

lemma foldl_colorStep_warnings:
  "v_warnings (foldl (colorStep row i m p) st cs)
     = v_warnings st @ concat (map (cellWarnings row i) cs)"
  by (induction cs arbitrary: st) (simp_all add: colorStep_warnings)

lemma getPrice_fst: "fst (getPrice row d ws) = fst (getPrice row d [])"
  by (simp add: getPrice_def split: option.splits)

lemma getPrice_snd: "snd (getPrice row d ws) = ws @ snd (getPrice row d [])"
  by (simp add: getPrice_def split: option.splits)

lemma rowStep_resultRows:
  "resultRows (rowStep cc d st (i, row)) = resultRows st @ rowRows cc d row"
  by (simp add: rowStep_def rowRows_def Let_def foldl_colorStep_resultRows getPrice_fst [of row d "v_warnings st"])

lemma rowStep_warnings:
  "v_warnings (rowStep cc d st ir) = v_warnings st @ rowWarnings cc d ir"
  by (simp add: rowStep_def rowWarnings_def Let_def foldl_colorStep_warnings
        getPrice_snd [of "snd ir" d "v_warnings st"])

lemma foldl_rowStep_resultRows:
  "resultRows (foldl (rowStep cc d) st (enumerate n rws))
     = resultRows st @ concat (map (rowRows cc d) rws)"
  by (induction rws arbitrary: st n) (simp_all add: rowStep_resultRows)

lemma foldl_rowStep_warnings:
  "v_warnings (foldl (rowStep cc d) st irs)
     = v_warnings st @ concat (map (rowWarnings cc d) irs)"
  by (induction irs arbitrary: st) (simp_all add: rowStep_warnings)

lemma processRows_resultRows:
  "resultRows (processRows cc d rws) = concat (map (rowRows cc d) rws)"
  by (simp add: processRows_def foldl_rowStep_resultRows initialVars_def)

lemma processRows_warnings:
  "v_warnings (processRows cc d rws) = concat (map (rowWarnings cc d) (enumerate 0 rws))"
  by (simp add: processRows_def foldl_rowStep_warnings initialVars_def)

lemma sumNumbers_snoc: "sumNumbers (xs @ [x]) = add (sumNumbers xs) x"
  by (simp add: sumNumbers_def)

lemma colorStep_totalsInv: "totalsInv st \<Longrightarrow> totalsInv (colorStep row i m p st c)"
  by (simp add: totalsInv_def colorStep_def Let_def sumNumbers_snoc split: option.splits)

lemma foldl_colorStep_totalsInv:
  "totalsInv st \<Longrightarrow> totalsInv (foldl (colorStep row i m p) st cs)"
  by (induction cs arbitrary: st) (simp_all add: colorStep_totalsInv)

lemma totalsInv_warnings: "totalsInv (st\<lparr>v_warnings := ws\<rparr>) = totalsInv st"
  by (simp add: totalsInv_def)

lemma rowStep_totalsInv: "totalsInv st \<Longrightarrow> totalsInv (rowStep cc d st ir)"
  by (simp add: rowStep_def Let_def foldl_colorStep_totalsInv totalsInv_warnings)

lemma foldl_rowStep_totalsInv: "totalsInv st \<Longrightarrow> totalsInv (foldl (rowStep cc d) st irs)"
  by (induction irs arbitrary: st) (simp_all add: rowStep_totalsInv)

lemma initialVars_totalsInv: "totalsInv initialVars"
  by (simp add: totalsInv_def initialVars_def sumNumbers_def)

lemma processRows_totalsInv: "totalsInv (processRows cc d rws)"
  by (simp add: processRows_def foldl_rowStep_totalsInv initialVars_totalsInv)

lemma foldl_addHeader:
  "foldl addHeader hs ks = hs @ filter (\<lambda>k. k \<notin> set hs) (firstSeen ks)"
proof (induction ks arbitrary: hs)
  case Nil
  show ?case by simp
next
  case (Cons k ks)
  show ?case
  proof (cases "k \<in> set hs")
    case True
    have "filter (\<lambda>y. y \<notin> set hs) (filter (\<lambda>y. y \<noteq> k) (firstSeen ks))
            = filter (\<lambda>y. y \<notin> set hs) (firstSeen ks)"
      using True by (auto simp: filter_filter intro: filter_cong)
    with True Cons [of hs] show ?thesis by (simp add: addHeader_def)
  next
    case False
    have "filter (\<lambda>y. y \<notin> set (hs @ [k])) (firstSeen ks)
            = filter (\<lambda>y. y \<notin> set hs) (filter (\<lambda>y. y \<noteq> k) (firstSeen ks))"
      by (auto simp: filter_filter intro: filter_cong)
    with False Cons [of "hs @ [k]"] show ?thesis by (simp add: addHeader_def)
  qed
qed

lemma foldl_addHeader_filter:
  "foldl (\<lambda>headers k. if k \<noteq> [] then addHeader headers k else headers) hs ks
     = foldl addHeader hs (filter (\<lambda>k. k \<noteq> []) ks)"
  by (induction ks arbitrary: hs) simp_all

lemma foldl_rows_keys:
  "foldl (\<lambda>headers row. foldl f headers (g row)) hs rws = foldl f hs (concat (map g rws))"
  by (induction rws arbitrary: hs) simp_all

lemma extractHeaders_firstSeen:
  "extractHeaders rws = firstSeen (filter (\<lambda>k. k \<noteq> []) (concat (map (map fst) rws)))"
proof -
  have "extractHeaders rws
          = foldl (\<lambda>headers k. if k \<noteq> [] then addHeader headers k else headers) []
              (concat (map (map fst) rws))"
    unfolding extractHeaders_def by (rule foldl_rows_keys)
  also have "\<dots> = foldl addHeader [] (filter (\<lambda>k. k \<noteq> []) (concat (map (map fst) rws)))"
    by (rule foldl_addHeader_filter)
  also have "\<dots> = firstSeen (filter (\<lambda>k. k \<noteq> []) (concat (map (map fst) rws)))"
    by (simp add: foldl_addHeader)
  finally show ?thesis .
qed

lemma parseNumber_finite: "parseNumber v = Some q \<Longrightarrow> isFinite q"
  by (auto simp: parseNumber_def Let_def split: cell.splits if_splits)

lemma not_le_zero_gt_zero: "isFinite q \<Longrightarrow> \<not> le_zero q \<Longrightarrow> gt_zero q"
  by (cases q) (auto simp: isFinite_def le_zero_def gt_zero_def)

lemma double_09: "double_of_rat (9 / 10) = Fin (8106479329266893 / 9007199254740992)"
  by code_simp

lemma mul_10_09: "mul (Fin 10) (Fin (8106479329266893 / 9007199254740992)) = Fin 9"
  by code_simp

lemma round2_9: "parseFloat (toFixed2 (Fin 9)) = Fin 9"
  by code_simp

lemma add_0_10: "add (Fin 0) (Fin 10) = Fin 10"
  by code_simp

lemma add_0_9: "add (Fin 0) (Fin 9) = Fin 9"
  by code_simp

lemma parseNumber_Num: "parseNumber (Num (Fin r)) = Some (Fin r)"
  by (simp add: parseNumber_def isFinite_def)

lemma parseNumber_Undefined: "parseNumber Undefined = None"
  by (simp add: parseNumber_def)

lemma modelX: "trim ''Model X'' = ''Model X''"
  by (simp add: trim_def isWhiteSpace_def)

lemma headersB: "extractHeaders [[(''Model'', Str ''Model X''), (''Black'', v)]] = [''Model'', ''Black'']"
  by (simp add: extractHeaders_def addHeader_def)

lemma normalize_Model: "normalizeHeader ''Model'' = ''model''"
  by code_simp

lemma normalize_Black: "normalizeHeader ''Black'' = ''black''"
  by code_simp

lemma colorsB: "identifyColorColumns [''Model'', ''Black''] = [''Black'']"
  by (simp add: identifyColorColumns_def normalize_Model normalize_Black FIXED_COLUMNS_def)

lemma ensureB: "ensureModelColumn [''Model'', ''Black''] = Inr ()"
  by (simp add: ensureModelColumn_def normalize_Model)

lemma le_zero_Fin: "le_zero (Fin r) = (r \<le> 0)"
  by (simp add: le_zero_def)

lemma scenarioB_result:
  "transformMatrixRows [[(''Model'', Str ''Model X''), (''Black'', Num (Fin 10))]]
     (Some \<lparr>defaultPrice = Some (double_of_rat (9 / 10))\<rparr>)
   = Inr \<lparr>rows = [\<lparr>modelNo = ''Model X'', categoryName = ''Model X'', color = ''Black'',
                    qty = Fin 10, priceUSD = double_of_rat (9 / 10), amountUSD = Fin 9\<rparr>],
          totals = \<lparr>totalQty = Fin 10, totalAmount = Fin 9\<rparr>,
          warnings = [''Price column missing or invalid; fallback to default price.'']\<rparr>"
  by (simp add: transformMatrixRows_def defaultPriceOf_def headersB ensureB colorsB
        processRows_def initialVars_def rowStep_def modelOf_def getCell_def nullish_def modelX
        getPrice_def parseNumber_Undefined priceFallbackWarning_def colorStep_def
        parseNumber_Num le_zero_Fin double_09 mul_10_09 round2_9 add_0_10 add_0_9
        trim_def isWhiteSpace_def Let_def)

lemma transform_Inr_rows:
  "transformMatrixRows rws options = Inr res \<Longrightarrow>
     rows res = resultRows (processRows (identifyColorColumns (extractHeaders rws))
                  (defaultPriceOf options) rws)"
  by (auto simp: transformMatrixRows_def Let_def split: if_splits sum.splits)

lemma transform_Inr_totals:
  "transformMatrixRows rws options = Inr res \<Longrightarrow>
     totals res =
       \<lparr>totalQty = v_totalQty (processRows (identifyColorColumns (extractHeaders rws))
                     (defaultPriceOf options) rws),
        totalAmount = parseFloat (toFixed2 (v_totalAmount
                     (processRows (identifyColorColumns (extractHeaders rws))
                        (defaultPriceOf options) rws)))\<rparr>"
  by (auto simp: transformMatrixRows_def Let_def split: if_splits sum.splits)

lemma parsed_positive: "parseNumber v = Some q \<Longrightarrow> \<not> le_zero q \<Longrightarrow> gt_zero q"
  by (blast intro: not_le_zero_gt_zero parseNumber_finite)

lemma cellRows_qty: "r \<in> set (cellRows row m p c) \<Longrightarrow> gt_zero (qty r)"
proof (cases "parseNumber (getCell row c)")
  case None
  assume "r \<in> set (cellRows row m p c)"
  with None show ?thesis by (simp add: cellRows_def)
next
  case (Some q)
  assume "r \<in> set (cellRows row m p c)"
  with Some show ?thesis
    by (auto simp: cellRows_def parsed_positive split: if_splits)
qed

lemma cellRows_price: "r \<in> set (cellRows row m p c) \<Longrightarrow> priceUSD r = p"
  by (auto simp: cellRows_def split: option.splits if_splits)

lemma cellRows_amount:
  "r \<in> set (cellRows row m p c) \<Longrightarrow>
     amountUSD r = parseFloat (toFixed2 (mul (qty r) (priceUSD r)))"
  by (auto simp: cellRows_def split: option.splits if_splits)

lemma rowRows_qty: "r \<in> set (rowRows cc d row) \<Longrightarrow> gt_zero (qty r)"
  by (auto simp: rowRows_def dest: cellRows_qty split: if_splits)

lemma rowRows_amount:
  "r \<in> set (rowRows cc d row) \<Longrightarrow>
     amountUSD r = parseFloat (toFixed2 (mul (qty r) (priceUSD r)))"
  by (auto simp: rowRows_def dest: cellRows_amount split: if_splits)

lemma getPrice_positive: "gt_zero d \<Longrightarrow> gt_zero (fst (getPrice row d ws))"
  by (cases "parseNumber (nullish (getCell row ''Price'') (getCell row ''price''))")
     (auto simp: getPrice_def parsed_positive)

lemma rowRows_price: "gt_zero d \<Longrightarrow> r \<in> set (rowRows cc d row) \<Longrightarrow> gt_zero (priceUSD r)"
  by (auto simp: rowRows_def getPrice_positive dest!: cellRows_price split: if_splits)

lemma ensureModelColumn_ok:
  "\<exists>h \<in> set headers. normalizeHeader h = ''model'' \<Longrightarrow> ensureModelColumn headers = Inr ()"
  by (auto simp: ensureModelColumn_def list_ex_iff)

lemma ensureModelColumn_fail:
  "\<forall>h \<in> set headers. normalizeHeader h \<noteq> ''model'' \<Longrightarrow>
     ensureModelColumn headers
       = Inl (TransformError
                (''Missing required column '' @ [CHR 0x22] @ ''Model'' @ [CHR 0x22] @ ''.'')
                INVALID_TEMPLATE)"
  by (auto simp: ensureModelColumn_def list_ex_iff)

lemma identifyColorColumns_empty:
  "\<forall>h \<in> set headers. normalizeHeader h \<in> set FIXED_COLUMNS \<Longrightarrow>
     identifyColorColumns headers = []"
  by (auto simp: identifyColorColumns_def filter_empty_conv)

lemma firstSeen_set: "set (firstSeen xs) = set xs"
  by (induction xs) auto

lemma firstSeen_Nil: "firstSeen xs = [] \<longleftrightarrow> xs = []"
  by (cases xs) simp_all

lemma extractHeaders_set:
  "set (extractHeaders rws) = {k. k \<noteq> [] \<and> (\<exists>row \<in> set rws. k \<in> fst ` set row)}"
  by (auto simp: extractHeaders_firstSeen firstSeen_set)

lemma getCell_absent: "k \<notin> fst ` set row \<Longrightarrow> getCell row k = Undefined"
proof -
  assume "k \<notin> fst ` set row"
  then have "map_of row k = None" by (simp add: map_of_eq_None_iff)
  then show ?thesis by (simp add: getCell_def)
qed

lemma trim_Nil: "trim [] = []"
  by (simp add: trim_def)

lemma modelOf_absent:
  "''Model'' \<notin> fst ` set row \<Longrightarrow> ''model'' \<notin> fst ` set row \<Longrightarrow> modelOf row = []"
  by (simp add: modelOf_def getCell_absent nullish_def trim_Nil)

lemma getPrice_absent:
  "''Price'' \<notin> fst ` set row \<Longrightarrow> ''price'' \<notin> fst ` set row \<Longrightarrow>
     getPrice row dflt ws = (dflt, ws @ [priceFallbackWarning])"
  by (simp add: getPrice_def getCell_absent nullish_def parseNumber_Undefined)

lemma getPrice_fallback:
  "parseNumber (nullish (getCell row ''Price'') (getCell row ''price'')) = None
     \<or> (\<exists>p. parseNumber (nullish (getCell row ''Price'') (getCell row ''price'')) = Some p
             \<and> le_zero p) \<Longrightarrow>
   getPrice row dflt ws = (dflt, ws @ [priceFallbackWarning])"
  by (auto simp: getPrice_def)

lemma absent_key:
  "k \<notin> set (extractHeaders rws) \<Longrightarrow> k \<noteq> [] \<Longrightarrow> row \<in> set rws \<Longrightarrow> k \<notin> fst ` set row"
  by (auto simp: extractHeaders_set)

lemma concat_singletons: "concat (map (\<lambda>x. [g x]) xs) = map g xs"
  by (induction xs) simp_all

lemma skipped_rows_warnings:
  assumes "\<forall>row \<in> set rws. modelOf row = []"
  shows "concat (map (rowWarnings cc d) (enumerate n rws))
           = map missingModelWarning [n..<n + length rws]"
proof -
  have "map (rowWarnings cc d) (enumerate n rws)
          = map (\<lambda>ir. [missingModelWarning (fst ir)]) (enumerate n rws)"
    using assms by (auto simp: rowWarnings_def in_set_enumerate_eq)
  then have "concat (map (rowWarnings cc d) (enumerate n rws))
          = map (\<lambda>ir. missingModelWarning (fst ir)) (enumerate n rws)"
    by (simp only: concat_singletons)
  also have "\<dots> = map (missingModelWarning \<circ> fst) (enumerate n rws)"
    by (simp add: comp_def)
  also have "\<dots> = map missingModelWarning (map fst (enumerate n rws))"
    by (simp only: map_map)
  also have "\<dots> = map missingModelWarning [n..<n + length rws]"
    by (simp only: map_fst_enumerate)
  finally show ?thesis .
qed

lemma skipped_rows_rows:
  "\<forall>row \<in> set rws. modelOf row = [] \<Longrightarrow> concat (map (rowRows cc d) rws) = []"
  by (simp add: rowRows_def)

lemma fixed_header_not_color:
  "normalizeHeader h \<in> set FIXED_COLUMNS \<Longrightarrow> h \<notin> set (identifyColorColumns headers)"
  by (simp add: identifyColorColumns_def)

lemma normalize_MODEL: "normalizeHeader ''MODEL'' = ''model''"
  by code_simp

lemma normalize_PRICE: "normalizeHeader ''PRICE'' = ''price''"
  by code_simp

lemma double_08: "double_of_rat (4 / 5) = Fin (3602879701896397 / 4503599627370496)"
  by code_simp

lemma double_12: "double_of_rat (6 / 5) = Fin (5404319552844595 / 4503599627370496)"
  by code_simp

lemma parse_20: "parseNumber (Str ''20'') = Some (Fin 20)"
  by code_simp

lemma parse_12: "parseNumber (Str ''1.2'') = Some (Fin (5404319552844595 / 4503599627370496))"
  by code_simp

lemma mul_50_08: "mul (Fin 50) (Fin (3602879701896397 / 4503599627370496)) = Fin 40"
  by code_simp

lemma mul_20_08: "mul (Fin 20) (Fin (3602879701896397 / 4503599627370496)) = Fin 16"
  by code_simp

lemma mul_30_12: "mul (Fin 30) (Fin (5404319552844595 / 4503599627370496)) = Fin 36"
  by code_simp

lemma round2_A:
  "parseFloat (toFixed2 (Fin 40)) = Fin 40" "parseFloat (toFixed2 (Fin 16)) = Fin 16"
  "parseFloat (toFixed2 (Fin 36)) = Fin 36" "parseFloat (toFixed2 (Fin 92)) = Fin 92"
  by code_simp+

lemma add_A:
  "add (Fin 0) (Fin 50) = Fin 50" "add (Fin 50) (Fin 20) = Fin 70"
  "add (Fin 70) (Fin 30) = Fin 100" "add (Fin 0) (Fin 40) = Fin 40"
  "add (Fin 40) (Fin 16) = Fin 56" "add (Fin 56) (Fin 36) = Fin 92"
  by code_simp+

lemma digits_23: "digits 2 = ''2''" "digits 3 = ''3''"
  by code_simp+

lemma headersA:
  "extractHeaders scenarioA
     = [''Model'', ''18#Black'', ''5#Lilac Blue'', ''Qty'', ''Price'', ''Amount, usd'', ''Red'',
        ''Amount'']"
  by (simp add: extractHeaders_def addHeader_def scenarioA_def)

lemma colorsA:
  "identifyColorColumns
     [''Model'', ''18#Black'', ''5#Lilac Blue'', ''Qty'', ''Price'', ''Amount, usd'', ''Red'',
      ''Amount'']
   = [''18#Black'', ''5#Lilac Blue'', ''Red'']"
  by code_simp

lemma ensureA:
  "ensureModelColumn
     [''Model'', ''18#Black'', ''5#Lilac Blue'', ''Qty'', ''Price'', ''Amount, usd'', ''Red'',
      ''Amount'']
   = Inr ()"
  by (simp add: ensureModelColumn_def normalize_Model)

lemma processA:
  "processRows [''18#Black'', ''5#Lilac Blue'', ''Red''] (double_of_rat (8 / 10)) scenarioA
   = \<lparr>resultRows =
        [\<lparr>modelNo = ''IP 12/12 pro'', categoryName = ''IP 12/12 pro'', color = ''18#Black'',
          qty = Fin 50, priceUSD = double_of_rat (8 / 10), amountUSD = Fin 40\<rparr>,
         \<lparr>modelNo = ''IP 12/12 pro'', categoryName = ''IP 12/12 pro'', color = ''5#Lilac Blue'',
          qty = Fin 20, priceUSD = double_of_rat (8 / 10), amountUSD = Fin 16\<rparr>,
         \<lparr>modelNo = ''IP 12 promax'', categoryName = ''IP 12 promax'', color = ''Red'',
          qty = Fin 30, priceUSD = double_of_rat (12 / 10), amountUSD = Fin 36\<rparr>],
      v_warnings =
        [''Row 2, column '' @ [CHR 0x22] @ ''Red'' @ [CHR 0x22] @ '': Invalid quantity, ignored.'',
         ''Row 3, column '' @ [CHR 0x22] @ ''5#Lilac Blue'' @ [CHR 0x22]
           @ '': Invalid quantity, ignored.''],
      v_totalQty = Fin 100, v_totalAmount = Fin 92\<rparr>"
  by (simp add: scenarioA_def processRows_def initialVars_def rowStep_def modelOf_def
        getCell_def nullish_def getPrice_def colorStep_def parseNumber_Undefined
        parseNumber_Num parse_20 parse_12 le_zero_Fin double_08 double_12
        mul_50_08 mul_20_08 mul_30_12 round2_A add_A digits_23
        invalidQuantityWarning_def rowLabel_def trim_def isWhiteSpace_def Let_def)

lemma processA_any:
  "processRows [''18#Black'', ''5#Lilac Blue'', ''Red''] dflt scenarioA
   = \<lparr>resultRows =
        [\<lparr>modelNo = ''IP 12/12 pro'', categoryName = ''IP 12/12 pro'', color = ''18#Black'',
          qty = Fin 50, priceUSD = double_of_rat (8 / 10), amountUSD = Fin 40\<rparr>,
         \<lparr>modelNo = ''IP 12/12 pro'', categoryName = ''IP 12/12 pro'', color = ''5#Lilac Blue'',
          qty = Fin 20, priceUSD = double_of_rat (8 / 10), amountUSD = Fin 16\<rparr>,
         \<lparr>modelNo = ''IP 12 promax'', categoryName = ''IP 12 promax'', color = ''Red'',
          qty = Fin 30, priceUSD = double_of_rat (12 / 10), amountUSD = Fin 36\<rparr>],
      v_warnings =
        [''Row 2, column '' @ [CHR 0x22] @ ''Red'' @ [CHR 0x22] @ '': Invalid quantity, ignored.'',
         ''Row 3, column '' @ [CHR 0x22] @ ''5#Lilac Blue'' @ [CHR 0x22]
           @ '': Invalid quantity, ignored.''],
      v_totalQty = Fin 100, v_totalAmount = Fin 92\<rparr>"
  by (simp add: scenarioA_def processRows_def initialVars_def rowStep_def modelOf_def
        getCell_def nullish_def getPrice_def colorStep_def parseNumber_Undefined
        parseNumber_Num parse_20 parse_12 le_zero_Fin double_08 double_12
        mul_50_08 mul_20_08 mul_30_12 round2_A add_A digits_23
        invalidQuantityWarning_def rowLabel_def trim_def isWhiteSpace_def Let_def)

lemma scenarioB_eval: "transformMatrixRows scenarioB optionsB = Inr resultB"
  by (simp add: scenarioB_def optionsB_def resultB_def scenarioB_result)

lemma gt_zero_Fin: "gt_zero (Fin r) = (0 < r)"
  by (simp add: gt_zero_def)

lemma mul_10_0: "mul (Fin 10) (Fin 0) = Fin 0"
  by (simp add: mul.simps double_of_rat_def)

lemma add_0_0: "add (Fin 0) (Fin 0) = Fin 0"
  by (simp add: add.simps double_of_rat_def)

lemma round2_0: "parseFloat (toFixed2 (Fin 0)) = Fin 0"
  by code_simp

lemma normalize_witness_headers:
  "normalizeHeader ''18#Black'' = ''18#black''" "normalizeHeader ''Red'' = ''red''"
  by code_simp+

lemma scenarioA_eval: "transformMatrixRows scenarioA None = Inr resultA"
  by (simp add: transformMatrixRows_def defaultPriceOf_def DEFAULT_PRICE_def headersA ensureA
        colorsA processA [simplified] round2_A resultA_def)

lemma transform_Inr_warnings:
  "transformMatrixRows rws options = Inr res \<Longrightarrow>
     warnings res = v_warnings (processRows (identifyColorColumns (extractHeaders rws))
                  (defaultPriceOf options) rws)"
  by (auto simp: transformMatrixRows_def Let_def split: if_splits sum.splits)

lemma row_warnings_in_result:
  assumes "i < length rws"
  shows "set (rowWarnings cc d (i, rws ! i)) \<subseteq> set (v_warnings (processRows cc d rws))"
proof -
  have "(i, rws ! i) \<in> set (enumerate 0 rws)"
    using assms by (simp add: in_set_enumerate_eq)
  then show ?thesis
    by (auto simp: processRows_warnings)
qed

lemma invalid_cell_warning:
  assumes "modelOf row \<noteq> []" and "c \<in> set cc" and "parseNumber (getCell row c) = None"
  shows "invalidQuantityWarning i c \<in> set (rowWarnings cc d (i, row))"
proof -
  have "invalidQuantityWarning i c \<in> set (cellWarnings row i c)"
    using assms(3) by (simp add: cellWarnings_def)
  with assms(1,2) show ?thesis
    by (auto simp: rowWarnings_def)
qed

lemma fallback_warning:
  assumes "modelOf row \<noteq> []"
    and "getPrice row d [] = (d, [priceFallbackWarning])"
  shows "priceFallbackWarning \<in> set (rowWarnings cc d (i, row))"
  using assms by (simp add: rowWarnings_def)

lemma rowRows_price_eq:
  "fst (getPrice row d []) = p \<Longrightarrow> r \<in> set (rowRows cc d row) \<Longrightarrow> priceUSD r = p"
  by (auto simp: rowRows_def dest!: cellRows_price split: if_splits)

lemma modelA0: "modelOf (scenarioA ! 0) = ''IP 12/12 pro''"
  by (simp add: scenarioA_def modelOf_def getCell_def nullish_def trim_def isWhiteSpace_def)

lemma scenarioZero_eval: "transformMatrixRows scenarioB optionsZero = Inr resultZero"
  by (simp add: scenarioB_def optionsZero_def resultZero_def
        transformMatrixRows_def defaultPriceOf_def headersB ensureB colorsB
        processRows_def initialVars_def rowStep_def modelOf_def getCell_def nullish_def modelX
        getPrice_def parseNumber_Undefined priceFallbackWarning_def colorStep_def
        parseNumber_Num le_zero_Fin mul_10_0 round2_0 add_0_10 add_0_0
        trim_def isWhiteSpace_def Let_def)

lemma parse_x: "parseNumber (Str ''x'') = None"
  by code_simp

lemma mul_1_08: "mul (Fin 1) (Fin (3602879701896397 / 4503599627370496))
                   = Fin (3602879701896397 / 4503599627370496)"
  by code_simp

lemma round2_08: "parseFloat (toFixed2 (Fin (3602879701896397 / 4503599627370496)))
                    = Fin (3602879701896397 / 4503599627370496)"
  by code_simp

lemma add_skip:
  "add (Fin 0) (Fin 1) = Fin 1"
  "add (Fin 0) (Fin (3602879701896397 / 4503599627370496))
     = Fin (3602879701896397 / 4503599627370496)"
  by code_simp+

lemma normalize_A: "normalizeHeader ''A'' = ''a''"
  by code_simp

lemma headersSkip: "extractHeaders scenarioSkip = [''Model'', ''A'']"
  by (simp add: extractHeaders_def addHeader_def scenarioSkip_def)

lemma colorsSkip: "identifyColorColumns [''Model'', ''A''] = [''A'']"
  by (simp add: identifyColorColumns_def normalize_Model normalize_A FIXED_COLUMNS_def)

lemma ensureSkip: "ensureModelColumn [''Model'', ''A''] = Inr ()"
  by (simp add: ensureModelColumn_def normalize_Model)

lemma scenarioSkip_eval:
  "transformMatrixRows scenarioSkip None
   = Inr \<lparr>rows = [\<lparr>modelNo = ''M'', categoryName = ''M'', color = ''A'', qty = Fin 1,
                    priceUSD = double_of_rat (8 / 10), amountUSD = double_of_rat (8 / 10)\<rparr>],
          totals = \<lparr>totalQty = Fin 1, totalAmount = double_of_rat (8 / 10)\<rparr>,
          warnings = [''Row 2: Missing model name, skipping.'',
                      ''Price column missing or invalid; fallback to default price.'']\<rparr>"
  by (simp add: transformMatrixRows_def defaultPriceOf_def DEFAULT_PRICE_def headersSkip
        ensureSkip colorsSkip)
     (simp add: scenarioSkip_def processRows_def initialVars_def rowStep_def modelOf_def
        getCell_def nullish_def getPrice_def parseNumber_Undefined priceFallbackWarning_def
        colorStep_def parseNumber_Num le_zero_Fin double_08 mul_1_08 round2_08 add_skip
        missingModelWarning_def rowLabel_def digits_23 trim_def isWhiteSpace_def Let_def)

section \<open>The claims\<close>

text \<open>
  C1.  On the two raw rows of Scenario A with no options, \<open>transformMatrixRows\<close> returns
  exactly three quotation rows: the row of colour \<open>5#Lilac Blue\<close> has quantity 20,
  price 0.8 and amount 16, the row of colour \<open>Red\<close> has quantity 30, price 1.2 and
  amount 36, and the totals are 100 and 92.  (The two cells that a row does not have give
  one warning each.)
\<close>

theorem scenario_A_result:
  "transformMatrixRows scenarioA None
   = Inr \<lparr>rows =
          [\<lparr>modelNo = ''IP 12/12 pro'', categoryName = ''IP 12/12 pro'', color = ''18#Black'',
            qty = Fin 50, priceUSD = double_of_rat (8 / 10), amountUSD = Fin 40\<rparr>,
           \<lparr>modelNo = ''IP 12/12 pro'', categoryName = ''IP 12/12 pro'',
            color = ''5#Lilac Blue'',
            qty = Fin 20, priceUSD = double_of_rat (8 / 10), amountUSD = Fin 16\<rparr>,
           \<lparr>modelNo = ''IP 12 promax'', categoryName = ''IP 12 promax'', color = ''Red'',
            qty = Fin 30, priceUSD = double_of_rat (12 / 10), amountUSD = Fin 36\<rparr>],
          totals = \<lparr>totalQty = Fin 100, totalAmount = Fin 92\<rparr>,
          warnings =
            [''Row 2, column '' @ [CHR 0x22] @ ''Red'' @ [CHR 0x22]
               @ '': Invalid quantity, ignored.'',
             ''Row 3, column '' @ [CHR 0x22] @ ''5#Lilac Blue'' @ [CHR 0x22]
               @ '': Invalid quantity, ignored.'']\<rparr>"
  using scenarioA_eval by (simp add: resultA_def)

text \<open>
  C2, under the condition that it needs.  Every quotation row of a successful result
  has a quantity above 0.  In the inner loop, a variant cell whose quantity parses to a
  number that is not above 0 changes nothing (no row, no warning), and a cell whose
  quantity does not parse adds no row and appends the warning that names the row, as
  index + 2, and the column.  The inner loop runs for the raw rows with a non-empty
  model: for such a row, the warning of a cell that does not parse is among the warnings
  of a successful result.
\<close>

theorem emitted_rows_have_positive_qty:
  "(transformMatrixRows rws options = Inr res \<longrightarrow> (\<forall>r \<in> set (rows res). gt_zero (qty r)))
   \<and> (parseNumber (getCell row c) = Some q \<and> le_zero q \<longrightarrow>
        colorStep row index model price st c = st)
   \<and> (parseNumber (getCell row' c') = None \<longrightarrow>
        colorStep row' index model price st c'
          = st\<lparr>v_warnings := v_warnings st @
                [''Row '' @ digits (int index + 2) @ '', column '' @ [CHR 0x22] @ c'
                   @ [CHR 0x22] @ '': Invalid quantity, ignored.'']\<rparr>)
   \<and> (transformMatrixRows rws options = Inr res \<and> i < length rws \<and> modelOf (rws ! i) \<noteq> []
        \<and> col \<in> set (identifyColorColumns (extractHeaders rws))
        \<and> parseNumber (getCell (rws ! i) col) = None \<longrightarrow>
        (''Row '' @ digits (int i + 2) @ '', column '' @ [CHR 0x22] @ col
           @ [CHR 0x22] @ '': Invalid quantity, ignored.'') \<in> set (warnings res))"
proof (intro conjI impI)
  assume "transformMatrixRows rws options = Inr res"
  then have "rows res = concat (map (rowRows (identifyColorColumns (extractHeaders rws))
                                       (defaultPriceOf options)) rws)"
    by (simp add: transform_Inr_rows processRows_resultRows)
  then show "\<forall>r \<in> set (rows res). gt_zero (qty r)"
    by (auto dest: rowRows_qty)
next
  assume "parseNumber (getCell row c) = Some q \<and> le_zero q"
  then show "colorStep row index model price st c = st"
    by (simp add: colorStep_def)
next
  assume "parseNumber (getCell row' c') = None"
  then show "colorStep row' index model price st c'
          = st\<lparr>v_warnings := v_warnings st @
                [''Row '' @ digits (int index + 2) @ '', column '' @ [CHR 0x22] @ c'
                   @ [CHR 0x22] @ '': Invalid quantity, ignored.'']\<rparr>"
    by (simp add: colorStep_def invalidQuantityWarning_def rowLabel_def)
next
  let ?cc = "identifyColorColumns (extractHeaders rws)"
  assume a: "transformMatrixRows rws options = Inr res \<and> i < length rws
        \<and> modelOf (rws ! i) \<noteq> [] \<and> col \<in> set ?cc
        \<and> parseNumber (getCell (rws ! i) col) = None"
  then have "invalidQuantityWarning i col
               \<in> set (rowWarnings ?cc (defaultPriceOf options) (i, rws ! i))"
    by (intro invalid_cell_warning) simp_all
  moreover have "warnings res = v_warnings (processRows ?cc (defaultPriceOf options) rws)"
    using a by (intro transform_Inr_warnings) simp
  then have "set (rowWarnings ?cc (defaultPriceOf options) (i, rws ! i))
               \<subseteq> set (warnings res)"
    using a row_warnings_in_result [of i rws ?cc "defaultPriceOf options"] by simp
  ultimately have "invalidQuantityWarning i col \<in> set (warnings res)"
    by blast
  then show "(''Row '' @ digits (int i + 2) @ '', column '' @ [CHR 0x22] @ col
           @ [CHR 0x22] @ '': Invalid quantity, ignored.'') \<in> set (warnings res)"
    by (simp add: invalidQuantityWarning_def rowLabel_def)
qed

theorem emitted_rows_have_positive_qty_witness:
  "transformMatrixRows scenarioA None = Inr resultA
   \<and> list_all (\<lambda>r. gt_zero (qty r)) (rows resultA)
   \<and> parseNumber (getCell [(''Black'', Num (Fin 0))] ''Black'') = Some (Fin 0) \<and> le_zero (Fin 0)
   \<and> colorStep [(''Black'', Num (Fin 0))] 0 ''Model X'' (Fin 1) initialVars ''Black'' = initialVars
   \<and> parseNumber (getCell [] ''Red'') = None
   \<and> colorStep [] 0 ''Model X'' (Fin 1) initialVars ''Red''
       = initialVars\<lparr>v_warnings :=
           [''Row 2, column '' @ [CHR 0x22] @ ''Red'' @ [CHR 0x22]
              @ '': Invalid quantity, ignored.'']\<rparr>
   \<and> modelOf (scenarioA ! 0) = ''IP 12/12 pro''
   \<and> identifyColorColumns (extractHeaders scenarioA) = [''18#Black'', ''5#Lilac Blue'', ''Red'']
   \<and> parseNumber (getCell (scenarioA ! 0) ''Red'') = None
   \<and> (''Row 2, column '' @ [CHR 0x22] @ ''Red'' @ [CHR 0x22] @ '': Invalid quantity, ignored.'')
       \<in> set (warnings resultA)"
proof -
  have p: "parseNumber (getCell (scenarioA ! 0) ''Red'') = None"
    by (simp add: scenarioA_def getCell_def parseNumber_Undefined)
  have n: "scenarioA \<noteq> []"
    by (simp add: scenarioA_def)
  show ?thesis
    using emitted_rows_have_positive_qty
      [where rws = scenarioA and options = None and res = resultA
         and row = "[(''Black'', Num (Fin 0))]" and c = "''Black''" and q = "Fin 0"
         and index = 0 and model = "''Model X''" and price = "Fin 1" and st = initialVars
         and row' = "[]" and c' = "''Red''" and i = 0 and col = "''Red''"]
      scenarioA_eval p n
    by (simp add: list_all_iff getCell_def parseNumber_Num parseNumber_Undefined le_zero_Fin
          digits_23 initialVars_def modelA0 headersA colorsA)
qed

text \<open>
  C2 as stated fails for a raw row without a model: the row is skipped before its cells
  are read, so its variant cell that does not parse gives no warning that names the row
  and the column, and the run still returns a result.
\<close>

theorem unparsable_cell_counterexample:
  "parseNumber (getCell [(''Model'', Str []), (''A'', Str ''x'')] ''A'') = None
   \<and> transformMatrixRows
        [[(''Model'', Str []), (''A'', Str ''x'')],
         [(''Model'', Str ''M''), (''A'', Num (Fin 1))]] None
      = Inr \<lparr>rows = [\<lparr>modelNo = ''M'', categoryName = ''M'', color = ''A'', qty = Fin 1,
                       priceUSD = double_of_rat (8 / 10),
                       amountUSD = double_of_rat (8 / 10)\<rparr>],
             totals = \<lparr>totalQty = Fin 1, totalAmount = double_of_rat (8 / 10)\<rparr>,
             warnings = [''Row 2: Missing model name, skipping.'',
                         ''Price column missing or invalid; fallback to default price.'']\<rparr>
   \<and> (''Row 2, column '' @ [CHR 0x22] @ ''A'' @ [CHR 0x22] @ '': Invalid quantity, ignored.'')
       \<notin> set [''Row 2: Missing model name, skipping.'',
                ''Price column missing or invalid; fallback to default price.'']"
  using scenarioSkip_eval
  by (simp add: scenarioSkip_def getCell_def parse_x)

text \<open>
  C3.  In every successful result, \<open>totalQty\<close> is the sum of the rows' quantities, and
  \<open>totalAmount\<close> is the sum of the rows' amounts rounded to two decimals, where each
  row's amount is its quantity times its price, rounded to two decimals.  The sums add
  from left to right, starting at 0.
\<close>

theorem totals_are_sums_of_rows:
  "transformMatrixRows rws options = Inr res \<Longrightarrow>
     totalQty (totals res) = sumNumbers (map qty (rows res)) \<and>
     totalAmount (totals res) = parseFloat (toFixed2 (sumNumbers (map amountUSD (rows res)))) \<and>
     (\<forall>r \<in> set (rows res). amountUSD r = parseFloat (toFixed2 (mul (qty r) (priceUSD r))))"
proof -
  assume ok: "transformMatrixRows rws options = Inr res"
  let ?st = "processRows (identifyColorColumns (extractHeaders rws)) (defaultPriceOf options) rws"
  have inv: "totalsInv ?st" by (rule processRows_totalsInv)
  have r: "rows res = resultRows ?st" using ok by (rule transform_Inr_rows)
  have t: "totals res = \<lparr>totalQty = v_totalQty ?st,
             totalAmount = parseFloat (toFixed2 (v_totalAmount ?st))\<rparr>"
    using ok by (rule transform_Inr_totals)
  have "\<forall>r \<in> set (resultRows ?st). amountUSD r = parseFloat (toFixed2 (mul (qty r) (priceUSD r)))"
    by (auto simp: processRows_resultRows dest: rowRows_amount)
  with inv r t show ?thesis by (simp add: totalsInv_def)
qed

theorem totals_are_sums_of_rows_witness:
  "transformMatrixRows scenarioA None = Inr resultA
   \<and> totalQty (totals resultA) = sumNumbers (map qty (rows resultA))
   \<and> totalAmount (totals resultA)
       = parseFloat (toFixed2 (sumNumbers (map amountUSD (rows resultA))))
   \<and> list_all (\<lambda>r. amountUSD r = parseFloat (toFixed2 (mul (qty r) (priceUSD r))))
       (rows resultA)"
  using totals_are_sums_of_rows [of scenarioA None resultA] scenarioA_eval
  by (simp add: list_all_iff)

text \<open>
  C4.  When the rows have at least one header: without a header that normalizes to
  \<open>model\<close>, \<open>transformMatrixRows\<close> fails with \<open>INVALID_TEMPLATE\<close>; with such a header but
  every header normalizing into the fixed set, so that no variant column is left, it
  fails with \<open>INVALID_TEMPLATE\<close> as well.
\<close>

theorem invalid_template_errors:
  "(extractHeaders rws \<noteq> [] \<and> (\<forall>h \<in> set (extractHeaders rws). normalizeHeader h \<noteq> ''model'')
      \<longrightarrow> transformMatrixRows rws options
            = Inl (TransformError
                     (''Missing required column '' @ [CHR 0x22] @ ''Model'' @ [CHR 0x22] @ ''.'')
                     INVALID_TEMPLATE))
   \<and> (extractHeaders rws' \<noteq> [] \<and> (\<exists>h \<in> set (extractHeaders rws'). normalizeHeader h = ''model'')
        \<and> (\<forall>h \<in> set (extractHeaders rws').
              normalizeHeader h \<in> {''model'', ''qty'', ''price'', ''amount,usd'', ''amount'',
                                     ''amountusd''})
      \<longrightarrow> transformMatrixRows rws' options'
            = Inl (TransformError ''No color columns detected in worksheet.'' INVALID_TEMPLATE))"
proof (intro conjI impI)
  assume "extractHeaders rws \<noteq> [] \<and> (\<forall>h \<in> set (extractHeaders rws). normalizeHeader h \<noteq> ''model'')"
  then show "transformMatrixRows rws options
            = Inl (TransformError
                     (''Missing required column '' @ [CHR 0x22] @ ''Model'' @ [CHR 0x22] @ ''.'')
                     INVALID_TEMPLATE)"
    by (simp add: transformMatrixRows_def ensureModelColumn_fail)
next
  assume a: "extractHeaders rws' \<noteq> [] \<and> (\<exists>h \<in> set (extractHeaders rws'). normalizeHeader h = ''model'')
        \<and> (\<forall>h \<in> set (extractHeaders rws').
              normalizeHeader h \<in> {''model'', ''qty'', ''price'', ''amount,usd'', ''amount'',
                                     ''amountusd''})"
  then have "identifyColorColumns (extractHeaders rws') = []"
    by (intro identifyColorColumns_empty) (simp add: FIXED_COLUMNS_def)
  with a show "transformMatrixRows rws' options'
            = Inl (TransformError ''No color columns detected in worksheet.'' INVALID_TEMPLATE)"
    by (simp add: transformMatrixRows_def ensureModelColumn_ok)
qed

theorem invalid_template_errors_witness:
  "extractHeaders [[(''18#Black'', Num (Fin 10))]] = [''18#Black'']
   \<and> normalizeHeader ''18#Black'' = ''18#black''
   \<and> transformMatrixRows [[(''18#Black'', Num (Fin 10))]] None
       = Inl (TransformError
                (''Missing required column '' @ [CHR 0x22] @ ''Model'' @ [CHR 0x22] @ ''.'')
                INVALID_TEMPLATE)
   \<and> extractHeaders [[(''Model'', Str ''Model X'')]] = [''Model'']
   \<and> normalizeHeader ''Model'' = ''model''
   \<and> transformMatrixRows [[(''Model'', Str ''Model X'')]] None
       = Inl (TransformError ''No color columns detected in worksheet.'' INVALID_TEMPLATE)"
proof -
  have h1: "extractHeaders [[(''18#Black'', Num (Fin 10))]] = [''18#Black'']"
    by (simp add: extractHeaders_def addHeader_def)
  have h2: "extractHeaders [[(''Model'', Str ''Model X'')]] = [''Model'']"
    by (simp add: extractHeaders_def addHeader_def)
  show ?thesis
    using invalid_template_errors
      [where rws = "[[(''18#Black'', Num (Fin 10))]]" and options = None
         and rws' = "[[(''Model'', Str ''Model X'')]]" and options' = None]
    by (simp add: h1 h2 normalize_witness_headers normalize_Model)
qed

text \<open>
  C5.  When the header checks pass (a header, a model header, a variant column),
  \<open>transformMatrixRows\<close> fails with \<open>EMPTY_RESULT\<close> exactly when the loops emitted no
  quotation row; otherwise it returns the emitted rows, the totals with \<open>totalAmount\<close>
  rounded to two decimals, and all the warnings.  The single row of Scenario D, a model
  with quantity 0, fails with \<open>EMPTY_RESULT\<close>.
\<close>

theorem empty_result_iff_nothing_emitted:
  "(extractHeaders rws \<noteq> [] \<and> (\<exists>h \<in> set (extractHeaders rws). normalizeHeader h = ''model'')
      \<and> identifyColorColumns (extractHeaders rws) \<noteq> []
    \<longrightarrow> (let st = processRows (identifyColorColumns (extractHeaders rws))
                      (defaultPriceOf options) rws
         in (transformMatrixRows rws options
               = Inl (TransformError ''No valid rows produced from worksheet.'' EMPTY_RESULT))
              = (resultRows st = [])
            \<and> (resultRows st \<noteq> [] \<longrightarrow>
                 transformMatrixRows rws options
                   = Inr \<lparr>rows = resultRows st,
                          totals = \<lparr>totalQty = v_totalQty st,
                                    totalAmount = parseFloat (toFixed2 (v_totalAmount st))\<rparr>,
                          warnings = v_warnings st\<rparr>)))
   \<and> transformMatrixRows [[(''Model'', Str ''Model X''), (''Black'', Num (Fin 0))]] None
       = Inl (TransformError ''No valid rows produced from worksheet.'' EMPTY_RESULT)"
proof (intro conjI impI)
  assume "extractHeaders rws \<noteq> [] \<and> (\<exists>h \<in> set (extractHeaders rws). normalizeHeader h = ''model'')
      \<and> identifyColorColumns (extractHeaders rws) \<noteq> []"
  then show "let st = processRows (identifyColorColumns (extractHeaders rws))
                      (defaultPriceOf options) rws
         in (transformMatrixRows rws options
               = Inl (TransformError ''No valid rows produced from worksheet.'' EMPTY_RESULT))
              = (resultRows st = [])
            \<and> (resultRows st \<noteq> [] \<longrightarrow>
                 transformMatrixRows rws options
                   = Inr \<lparr>rows = resultRows st,
                          totals = \<lparr>totalQty = v_totalQty st,
                                    totalAmount = parseFloat (toFixed2 (v_totalAmount st))\<rparr>,
                          warnings = v_warnings st\<rparr>)"
    by (simp add: transformMatrixRows_def ensureModelColumn_ok Let_def)
next
  show "transformMatrixRows [[(''Model'', Str ''Model X''), (''Black'', Num (Fin 0))]] None
       = Inl (TransformError ''No valid rows produced from worksheet.'' EMPTY_RESULT)"
    by (simp add: transformMatrixRows_def headersB ensureB colorsB
        processRows_def initialVars_def rowStep_def modelOf_def getCell_def nullish_def modelX
        getPrice_def parseNumber_Undefined colorStep_def parseNumber_Num le_zero_Fin Let_def)
qed

theorem empty_result_iff_nothing_emitted_witness:
  "extractHeaders scenarioB = [''Model'', ''Black'']
   \<and> normalizeHeader ''Model'' = ''model''
   \<and> identifyColorColumns [''Model'', ''Black''] = [''Black'']
   \<and> resultRows (processRows [''Black''] (double_of_rat (9 / 10)) scenarioB) = rows resultB
   \<and> transformMatrixRows scenarioB optionsB
       \<noteq> Inl (TransformError ''No valid rows produced from worksheet.'' EMPTY_RESULT)"
proof -
  have h: "extractHeaders scenarioB = [''Model'', ''Black'']"
    by (simp add: scenarioB_def headersB)
  have r: "resultRows (processRows [''Black''] (double_of_rat (9 / 10)) scenarioB) = rows resultB"
    using transform_Inr_rows [OF scenarioB_eval]
    by (simp add: h colorsB defaultPriceOf_def optionsB_def)
  show ?thesis
    using empty_result_iff_nothing_emitted [where rws = scenarioB and options = optionsB] r
    by (simp add: h colorsB normalize_Model defaultPriceOf_def optionsB_def resultB_def Let_def)
qed

text \<open>
  C6.  For a raw row with a non-empty model whose \<open>Price\<close>/\<open>price\<close> field does not parse
  or parses to a number that is not above 0, \<open>getPrice\<close> appends the price-fallback
  warning and returns the default price, the row is processed at that price, and every
  quotation row it adds has that price; the warning is among the warnings of a
  successful result.  The default price is \<open>options.defaultPrice\<close>, and 0.8 when it is
  unset.  In Scenario B, with the default price 0.9, the output row has the price 0.9 and
  the warnings hold the price-fallback message.
\<close>

theorem price_falls_back_to_default:
  "(modelOf row \<noteq> []
      \<and> (parseNumber (nullish (getCell row ''Price'') (getCell row ''price'')) = None
          \<or> (\<exists>p. parseNumber (nullish (getCell row ''Price'') (getCell row ''price'')) = Some p
                  \<and> le_zero p))
    \<longrightarrow> getPrice row (defaultPriceOf options) ws
          = (defaultPriceOf options,
             ws @ [''Price column missing or invalid; fallback to default price.''])
        \<and> rowStep colorColumns (defaultPriceOf options) st (index, row)
          = foldl (colorStep row index (modelOf row) (defaultPriceOf options))
              (st\<lparr>v_warnings := v_warnings st @
                    [''Price column missing or invalid; fallback to default price.'']\<rparr>)
              colorColumns
        \<and> (\<exists>new. resultRows (rowStep colorColumns (defaultPriceOf options) st (index, row))
                     = resultRows st @ new
                   \<and> (\<forall>r \<in> set new. priceUSD r = defaultPriceOf options)))
   \<and> (transformMatrixRows rws options = Inr res \<and> i < length rws \<and> modelOf (rws ! i) \<noteq> []
        \<and> (parseNumber (nullish (getCell (rws ! i) ''Price'') (getCell (rws ! i) ''price''))
              = None
            \<or> (\<exists>p. parseNumber (nullish (getCell (rws ! i) ''Price'')
                                    (getCell (rws ! i) ''price'')) = Some p
                    \<and> le_zero p))
      \<longrightarrow> ''Price column missing or invalid; fallback to default price.''
            \<in> set (warnings res))
   \<and> defaultPriceOf None = double_of_rat (8 / 10)
   \<and> defaultPriceOf (Some \<lparr>defaultPrice = None\<rparr>) = double_of_rat (8 / 10)
   \<and> defaultPriceOf (Some \<lparr>defaultPrice = Some x\<rparr>) = x
   \<and> transformMatrixRows [[(''Model'', Str ''Model X''), (''Black'', Num (Fin 10))]]
        (Some \<lparr>defaultPrice = Some (double_of_rat (9 / 10))\<rparr>)
      = Inr \<lparr>rows = [\<lparr>modelNo = ''Model X'', categoryName = ''Model X'', color = ''Black'',
                       qty = Fin 10, priceUSD = double_of_rat (9 / 10), amountUSD = Fin 9\<rparr>],
             totals = \<lparr>totalQty = Fin 10, totalAmount = Fin 9\<rparr>,
             warnings = [''Price column missing or invalid; fallback to default price.'']\<rparr>"
proof (intro conjI impI)
  assume a: "modelOf row \<noteq> []
      \<and> (parseNumber (nullish (getCell row ''Price'') (getCell row ''price'')) = None
          \<or> (\<exists>p. parseNumber (nullish (getCell row ''Price'') (getCell row ''price'')) = Some p
                  \<and> le_zero p))"
  then have g: "\<And>ws. getPrice row (defaultPriceOf options) ws
                  = (defaultPriceOf options, ws @ [priceFallbackWarning])"
    by (intro getPrice_fallback) simp
  show "getPrice row (defaultPriceOf options) ws
          = (defaultPriceOf options,
             ws @ [''Price column missing or invalid; fallback to default price.''])"
    using g by (simp add: priceFallbackWarning_def)
  show "rowStep colorColumns (defaultPriceOf options) st (index, row)
          = foldl (colorStep row index (modelOf row) (defaultPriceOf options))
              (st\<lparr>v_warnings := v_warnings st @
                    [''Price column missing or invalid; fallback to default price.'']\<rparr>)
              colorColumns"
    using a g by (simp add: rowStep_def Let_def priceFallbackWarning_def)
  have "\<forall>r \<in> set (rowRows colorColumns (defaultPriceOf options) row).
          priceUSD r = defaultPriceOf options"
    using g [of "[]"] by (auto dest: rowRows_price_eq [rotated])
  then show "\<exists>new. resultRows (rowStep colorColumns (defaultPriceOf options) st (index, row))
                     = resultRows st @ new
                   \<and> (\<forall>r \<in> set new. priceUSD r = defaultPriceOf options)"
    using rowStep_resultRows [of colorColumns "defaultPriceOf options" st index row] by blast
next
  assume a: "transformMatrixRows rws options = Inr res \<and> i < length rws
        \<and> modelOf (rws ! i) \<noteq> []
        \<and> (parseNumber (nullish (getCell (rws ! i) ''Price'') (getCell (rws ! i) ''price''))
              = None
            \<or> (\<exists>p. parseNumber (nullish (getCell (rws ! i) ''Price'')
                                    (getCell (rws ! i) ''price'')) = Some p
                    \<and> le_zero p))"
  let ?cc = "identifyColorColumns (extractHeaders rws)"
  have "getPrice (rws ! i) (defaultPriceOf options) []
          = (defaultPriceOf options, [] @ [priceFallbackWarning])"
    using a by (intro getPrice_fallback) simp
  then have "priceFallbackWarning
               \<in> set (rowWarnings ?cc (defaultPriceOf options) (i, rws ! i))"
    using a by (intro fallback_warning) simp_all
  moreover have "warnings res = v_warnings (processRows ?cc (defaultPriceOf options) rws)"
    using a by (intro transform_Inr_warnings) simp
  then have "set (rowWarnings ?cc (defaultPriceOf options) (i, rws ! i))
               \<subseteq> set (warnings res)"
    using a row_warnings_in_result [of i rws ?cc "defaultPriceOf options"] by simp
  ultimately have "priceFallbackWarning \<in> set (warnings res)"
    by blast
  then show "''Price column missing or invalid; fallback to default price.''
            \<in> set (warnings res)"
    by (simp add: priceFallbackWarning_def)
next
  show "defaultPriceOf None = double_of_rat (8 / 10)"
    by (simp add: defaultPriceOf_def DEFAULT_PRICE_def)
  show "defaultPriceOf (Some \<lparr>defaultPrice = None\<rparr>) = double_of_rat (8 / 10)"
    by (simp add: defaultPriceOf_def DEFAULT_PRICE_def)
  show "defaultPriceOf (Some \<lparr>defaultPrice = Some x\<rparr>) = x"
    by (simp add: defaultPriceOf_def)
  show "transformMatrixRows [[(''Model'', Str ''Model X''), (''Black'', Num (Fin 10))]]
        (Some \<lparr>defaultPrice = Some (double_of_rat (9 / 10))\<rparr>)
      = Inr \<lparr>rows = [\<lparr>modelNo = ''Model X'', categoryName = ''Model X'', color = ''Black'',
                       qty = Fin 10, priceUSD = double_of_rat (9 / 10), amountUSD = Fin 9\<rparr>],
             totals = \<lparr>totalQty = Fin 10, totalAmount = Fin 9\<rparr>,
             warnings = [''Price column missing or invalid; fallback to default price.'']\<rparr>"
    by (rule scenarioB_result)
qed

theorem price_falls_back_to_default_witness:
  "modelOf (scenarioB ! 0) = ''Model X''
   \<and> parseNumber (nullish (getCell (scenarioB ! 0) ''Price'') (getCell (scenarioB ! 0) ''price''))
       = None
   \<and> getPrice (scenarioB ! 0) (double_of_rat (9 / 10)) []
       = (double_of_rat (9 / 10),
          [''Price column missing or invalid; fallback to default price.''])
   \<and> v_warnings (rowStep [] (double_of_rat (9 / 10)) initialVars (0, scenarioB ! 0))
       = [''Price column missing or invalid; fallback to default price.'']
   \<and> transformMatrixRows scenarioB optionsB = Inr resultB
   \<and> ''Price column missing or invalid; fallback to default price.'' \<in> set (warnings resultB)"
proof -
  have m: "modelOf (scenarioB ! 0) = ''Model X''"
    by (simp add: scenarioB_def modelOf_def getCell_def nullish_def modelX)
  have p: "parseNumber (nullish (getCell (scenarioB ! 0) ''Price'')
                          (getCell (scenarioB ! 0) ''price'')) = None"
    by (simp add: scenarioB_def getCell_def nullish_def parseNumber_Undefined)
  have d: "defaultPriceOf optionsB = double_of_rat (9 / 10)"
    by (simp add: defaultPriceOf_def optionsB_def)
  have n: "scenarioB \<noteq> []"
    by (simp add: scenarioB_def)
  show ?thesis
    using price_falls_back_to_default
      [where row = "scenarioB ! 0" and options = optionsB and ws = "[]"
         and colorColumns = "[]" and st = initialVars and index = 0
         and rws = scenarioB and res = resultB and i = 0 and x = "Fin 1"]
      scenarioB_eval n
    by (simp add: m p d initialVars_def)
qed

text \<open>
  C7, under the condition that it needs.  In every successful result, whatever the
  options, the amount of every quotation row is its quantity times its price, rounded to
  two decimals.  When the default price in force is above 0, every quotation row of a
  successful result has a price above 0.
\<close>

theorem price_positive_amount_rounded:
  "(transformMatrixRows rws options = Inr res \<longrightarrow>
      (\<forall>r \<in> set (rows res).
         amountUSD r = parseFloat (toFixed2 (mul (qty r) (priceUSD r)))))
   \<and> (gt_zero (defaultPriceOf options') \<and> transformMatrixRows rws' options' = Inr res' \<longrightarrow>
        (\<forall>r \<in> set (rows res'). gt_zero (priceUSD r)))"
proof (intro conjI impI)
  assume "transformMatrixRows rws options = Inr res"
  then have "rows res = concat (map (rowRows (identifyColorColumns (extractHeaders rws))
                                       (defaultPriceOf options)) rws)"
    by (simp add: transform_Inr_rows processRows_resultRows)
  then show "\<forall>r \<in> set (rows res).
               amountUSD r = parseFloat (toFixed2 (mul (qty r) (priceUSD r)))"
    by (auto dest: rowRows_amount)
next
  assume a: "gt_zero (defaultPriceOf options') \<and> transformMatrixRows rws' options' = Inr res'"
  then have ok: "transformMatrixRows rws' options' = Inr res'"
    by simp
  have "rows res' = concat (map (rowRows (identifyColorColumns (extractHeaders rws'))
                                   (defaultPriceOf options')) rws')"
    using transform_Inr_rows [OF ok] by (simp add: processRows_resultRows)
  then show "\<forall>r \<in> set (rows res'). gt_zero (priceUSD r)"
    using a by (auto dest: rowRows_price)
qed

theorem price_positive_amount_rounded_witness:
  "transformMatrixRows scenarioB optionsZero = Inr resultZero
   \<and> list_all (\<lambda>r. amountUSD r = parseFloat (toFixed2 (mul (qty r) (priceUSD r))))
       (rows resultZero)
   \<and> gt_zero (defaultPriceOf optionsB) \<and> transformMatrixRows scenarioA optionsB = Inr resultA
   \<and> list_all (\<lambda>r. gt_zero (priceUSD r)) (rows resultA)"
proof -
  have d: "gt_zero (defaultPriceOf optionsB)"
    by (simp add: defaultPriceOf_def optionsB_def double_09 gt_zero_Fin)
  have e: "transformMatrixRows scenarioA optionsB = Inr resultA"
    by (simp add: transformMatrixRows_def defaultPriceOf_def optionsB_def headersA ensureA
          colorsA processA_any [simplified] round2_A resultA_def)
  show ?thesis
    using price_positive_amount_rounded
      [where rws = scenarioB and options = optionsZero and res = resultZero
         and rws' = scenarioA and options' = optionsB and res' = resultA]
      scenarioZero_eval d e
    by (simp add: list_all_iff)
qed

text \<open>
  C7 as stated fails for a default price that is not above 0: with the default price 0
  the row of Scenario B is emitted at the price 0.
\<close>

theorem price_positive_counterexample:
  "transformMatrixRows [[(''Model'', Str ''Model X''), (''Black'', Num (Fin 10))]]
     (Some \<lparr>defaultPrice = Some (Fin 0)\<rparr>)
   = Inr \<lparr>rows = [\<lparr>modelNo = ''Model X'', categoryName = ''Model X'', color = ''Black'',
                    qty = Fin 10, priceUSD = Fin 0, amountUSD = Fin 0\<rparr>],
          totals = \<lparr>totalQty = Fin 10, totalAmount = Fin 0\<rparr>,
          warnings = [''Price column missing or invalid; fallback to default price.'']\<rparr>
   \<and> \<not> gt_zero (Fin 0)"
  using scenarioZero_eval
  by (simp add: scenarioB_def optionsZero_def resultZero_def gt_zero_Fin)

text \<open>
  C8.  The rows of a successful result are those of the raw rows in input order, and
  within one raw row those of the variant columns, in the order in which the headers are
  first seen when the keys of the rows are scanned in input order.
\<close>

theorem rows_in_loop_order:
  "transformMatrixRows rws options = Inr res \<Longrightarrow>
     rows res =
       concat (map (\<lambda>row.
                 if modelOf row = [] then []
                 else concat (map (cellRows row (modelOf row)
                                     (fst (getPrice row (defaultPriceOf options) [])))
                        (identifyColorColumns
                           (firstSeen (filter (\<lambda>k. k \<noteq> []) (concat (map (map fst) rws)))))))
               rws)"
proof -
  assume "transformMatrixRows rws options = Inr res"
  then have "rows res = concat (map (rowRows (identifyColorColumns (extractHeaders rws))
                                       (defaultPriceOf options)) rws)"
    by (simp add: transform_Inr_rows processRows_resultRows)
  then show ?thesis
    by (simp add: extractHeaders_firstSeen rowRows_def [abs_def])
qed

theorem rows_in_loop_order_witness:
  "transformMatrixRows scenarioA None = Inr resultA
   \<and> rows resultA =
       concat (map (\<lambda>row.
                 if modelOf row = [] then []
                 else concat (map (cellRows row (modelOf row)
                                     (fst (getPrice row (defaultPriceOf None) [])))
                        (identifyColorColumns
                           (firstSeen (filter (\<lambda>k. k \<noteq> [])
                              (concat (map (map fst) scenarioA)))))))
               scenarioA)"
  using rows_in_loop_order [OF scenarioA_eval] scenarioA_eval
  by simp

text \<open>
  C9.  The rows have no header exactly when every key of every row is the empty string
  (so also when there is no row); then \<open>transformMatrixRows\<close> fails with \<open>PARSE_ERROR\<close>
  and the message \<open>Could not detect headers in worksheet.\<close>, whatever the later checks
  would say.
\<close>

theorem no_headers_is_parse_error:
  "((extractHeaders rws = []) = (\<forall>row \<in> set rws. \<forall>k \<in> set (map fst row). k = []))
   \<and> (extractHeaders rws = [] \<longrightarrow>
        transformMatrixRows rws options
          = Inl (TransformError ''Could not detect headers in worksheet.'' PARSE_ERROR))"
proof (intro conjI impI)
  show "(extractHeaders rws = []) = (\<forall>row \<in> set rws. \<forall>k \<in> set (map fst row). k = [])"
    by (auto simp: extractHeaders_firstSeen firstSeen_Nil filter_empty_conv)
next
  assume "extractHeaders rws = []"
  then show "transformMatrixRows rws options
          = Inl (TransformError ''Could not detect headers in worksheet.'' PARSE_ERROR)"
    by (simp add: transformMatrixRows_def)
qed

theorem no_headers_is_parse_error_witness:
  "extractHeaders [[([], Str ''x'')]] = []
   \<and> transformMatrixRows [[([], Str ''x'')]] None
       = Inl (TransformError ''Could not detect headers in worksheet.'' PARSE_ERROR)
   \<and> transformMatrixRows [] None
       = Inl (TransformError ''Could not detect headers in worksheet.'' PARSE_ERROR)"
  using no_headers_is_parse_error [of "[[([], Str ''x'')]]" None]
    no_headers_is_parse_error [of "[]" None]
  by simp

text \<open>
  C10, under the condition that it needs.  The model and the price are read under the exact keys \<open>Model\<close>,
  \<open>model\<close>, \<open>Price\<close> and \<open>price\<close>, while headers are classified after normalization.
  When no row has the key \<open>Model\<close> or \<open>model\<close>, some header normalizes to \<open>model\<close> (as
  \<open>MODEL\<close> does) and there is at least one variant column, \<open>ensureModelColumn\<close> passes,
  every row is skipped with a missing-model warning, and \<open>transformMatrixRows\<close> fails
  with \<open>EMPTY_RESULT\<close>.  A header that normalizes to \<open>price\<close> (as \<open>PRICE\<close> does) is no
  variant column, and a row without the keys \<open>Price\<close> and \<open>price\<close> gets the default
  price with a warning.
\<close>

theorem exact_key_lookup_skips_rows:
  "(''Model'' \<notin> set (extractHeaders rws) \<and> ''model'' \<notin> set (extractHeaders rws)
      \<and> (\<exists>h \<in> set (extractHeaders rws). normalizeHeader h = ''model'')
      \<and> identifyColorColumns (extractHeaders rws) \<noteq> []
    \<longrightarrow> ensureModelColumn (extractHeaders rws) = Inr ()
        \<and> resultRows (processRows cc d rws) = []
        \<and> v_warnings (processRows cc d rws)
            = map (\<lambda>i. ''Row '' @ digits (int i + 2) @ '': Missing model name, skipping.'')
                [0..<length rws]
        \<and> transformMatrixRows rws options
            = Inl (TransformError ''No valid rows produced from worksheet.'' EMPTY_RESULT))
   \<and> (normalizeHeader h = ''price'' \<longrightarrow> h \<notin> set (identifyColorColumns headers))
   \<and> (''Price'' \<notin> fst ` set row \<and> ''price'' \<notin> fst ` set row \<longrightarrow>
        getPrice row dflt ws
          = (dflt, ws @ [''Price column missing or invalid; fallback to default price.'']))
   \<and> normalizeHeader ''MODEL'' = ''model'' \<and> normalizeHeader ''PRICE'' = ''price''"
proof (intro conjI impI)
  assume a: "''Model'' \<notin> set (extractHeaders rws) \<and> ''model'' \<notin> set (extractHeaders rws)
      \<and> (\<exists>h \<in> set (extractHeaders rws). normalizeHeader h = ''model'')
      \<and> identifyColorColumns (extractHeaders rws) \<noteq> []"
  have skip: "\<forall>row \<in> set rws. modelOf row = []"
  proof
    fix row assume r: "row \<in> set rws"
    have "''Model'' \<notin> fst ` set row"
      using a r by (intro absent_key [of _ rws]) simp_all
    moreover have "''model'' \<notin> fst ` set row"
      using a r by (intro absent_key [of _ rws]) simp_all
    ultimately show "modelOf row = []" by (rule modelOf_absent)
  qed
  show "ensureModelColumn (extractHeaders rws) = Inr ()"
    using a by (simp add: ensureModelColumn_ok)
  show none: "\<And>cc d. resultRows (processRows cc d rws) = []"
    using skip by (simp add: processRows_resultRows skipped_rows_rows)
  show "v_warnings (processRows cc d rws)
            = map (\<lambda>i. ''Row '' @ digits (int i + 2) @ '': Missing model name, skipping.'')
                [0..<length rws]"
    using skip by (simp add: processRows_warnings skipped_rows_warnings
        missingModelWarning_def [abs_def] rowLabel_def)
  show "transformMatrixRows rws options
            = Inl (TransformError ''No valid rows produced from worksheet.'' EMPTY_RESULT)"
    using a none by (auto simp: transformMatrixRows_def ensureModelColumn_ok Let_def)
next
  assume "normalizeHeader h = ''price''"
  then show "h \<notin> set (identifyColorColumns headers)"
    by (intro fixed_header_not_color) (simp add: FIXED_COLUMNS_def)
next
  assume "''Price'' \<notin> fst ` set row \<and> ''price'' \<notin> fst ` set row"
  then show "getPrice row dflt ws
          = (dflt, ws @ [''Price column missing or invalid; fallback to default price.''])"
    by (simp add: getPrice_absent priceFallbackWarning_def)
next
  show "normalizeHeader ''MODEL'' = ''model''" by (rule normalize_MODEL)
  show "normalizeHeader ''PRICE'' = ''price''" by (rule normalize_PRICE)
qed

theorem exact_key_lookup_skips_rows_witness:
  "extractHeaders [[(''MODEL'', Str ''x''), (''Red'', Num (Fin 3))]] = [''MODEL'', ''Red'']
   \<and> identifyColorColumns [''MODEL'', ''Red''] = [''Red'']
   \<and> v_warnings (processRows [''Red''] (Fin 1) [[(''MODEL'', Str ''x''), (''Red'', Num (Fin 3))]])
       = [''Row 2: Missing model name, skipping.'']
   \<and> transformMatrixRows [[(''MODEL'', Str ''x''), (''Red'', Num (Fin 3))]] None
       = Inl (TransformError ''No valid rows produced from worksheet.'' EMPTY_RESULT)
   \<and> ''PRICE'' \<notin> set (identifyColorColumns [''PRICE'', ''Red''])
   \<and> getPrice [(''PRICE'', Num (Fin 5))] (Fin 1) []
       = (Fin 1, [''Price column missing or invalid; fallback to default price.''])"
proof -
  have h: "extractHeaders [[(''MODEL'', Str ''x''), (''Red'', Num (Fin 3))]] = [''MODEL'', ''Red'']"
    by (simp add: extractHeaders_def addHeader_def)
  have c: "identifyColorColumns [''MODEL'', ''Red''] = [''Red'']"
    by (simp add: identifyColorColumns_def normalize_MODEL normalize_witness_headers
          FIXED_COLUMNS_def)
  show ?thesis
    using exact_key_lookup_skips_rows
      [where rws = "[[(''MODEL'', Str ''x''), (''Red'', Num (Fin 3))]]" and options = None
         and cc = "[''Red'']" and d = "Fin 1" and h = "''PRICE''"
         and headers = "[''PRICE'', ''Red'']" and row = "[(''PRICE'', Num (Fin 5))]"
         and dflt = "Fin 1" and ws = "[]"]
    by (simp add: h c normalize_MODEL normalize_PRICE digits_23)
qed

text \<open>
  C10 as stated fails when there is no variant column: the single row with the only key
  \<open>MODEL\<close> passes \<open>ensureModelColumn\<close> and then fails with \<open>INVALID_TEMPLATE\<close>, before
  any row is processed.
\<close>

theorem exact_key_lookup_counterexample:
  "extractHeaders [[(''MODEL'', Str ''x'')]] = [''MODEL'']
   \<and> ensureModelColumn [''MODEL''] = Inr ()
   \<and> transformMatrixRows [[(''MODEL'', Str ''x'')]] None
       = Inl (TransformError ''No color columns detected in worksheet.'' INVALID_TEMPLATE)"
proof -
  have h: "extractHeaders [[(''MODEL'', Str ''x'')]] = [''MODEL'']"
    by (simp add: extractHeaders_def addHeader_def)
  have e: "ensureModelColumn [''MODEL''] = Inr ()"
    by (simp add: ensureModelColumn_def normalize_MODEL)
  have c: "identifyColorColumns [''MODEL''] = []"
    by (simp add: identifyColorColumns_def normalize_MODEL FIXED_COLUMNS_def)
  show ?thesis
    by (simp add: transformMatrixRows_def h e c)
qed

end
